theory Spec2Isabelle
  imports Complex_Main
begin

section \<open>Python values\<close>

text \<open>
  The squads, the league standings and the pickled cache are duck-typed Python data decoded
  from JSON. They are modelled by one datatype of values. A dictionary is an association
  list in insertion order whose keys are manager ids (ints) or field names (strings); a
  lookup takes the first entry, a store replaces an entry in place or appends a new one,
  as a Python dict does. Floats are the rationals they denote.
\<close>

datatype pykey = KInt int | KStr string

datatype pyval =
    PNone
  | PBool bool
  | PInt int
  | PFloat rat
  | PStr string
  | PList "pyval list"
  | PDict "(pykey \<times> pyval) list"

datatype exn = KeyError | TypeError | ZeroDivisionError | ValueError | AttributeError

type_synonym pydict = "(pykey \<times> pyval) list"

text \<open>Truth value of an object, as tested by \<^verbatim>\<open>if squad:\<close>.\<close>

fun truthy :: "pyval \<Rightarrow> bool" where
  "truthy PNone = False"
| "truthy (PBool b) = b"
| "truthy (PInt n) = (n \<noteq> 0)"
| "truthy (PFloat r) = (r \<noteq> 0)"
| "truthy (PStr s) = (s \<noteq> [])"
| "truthy (PList xs) = (xs \<noteq> [])"
| "truthy (PDict kvs) = (kvs \<noteq> [])"

text \<open>\<^verbatim>\<open>len(x)\<close>: a TypeError on an object that has no length.\<close>

fun py_len :: "pyval \<Rightarrow> exn + nat" where
  "py_len (PStr s) = Inr (length s)"
| "py_len (PList xs) = Inr (length xs)"
| "py_len (PDict kvs) = Inr (length kvs)"
| "py_len _ = Inl TypeError"

text \<open>\<^verbatim>\<open>d[k] = v\<close> on a dictionary.\<close>

fun dict_set :: "('k \<times> 'v) list \<Rightarrow> 'k \<Rightarrow> 'v \<Rightarrow> ('k \<times> 'v) list" where
  "dict_set [] k v = [(k, v)]"
| "dict_set ((k', v') # kvs) k v =
     (if k' = k then (k, v) # kvs else (k', v') # dict_set kvs k v)"

text \<open>\<^verbatim>\<open>d.update(e)\<close>: the entries of \<open>e\<close> are stored into \<open>d\<close> one by one, in order.\<close>

definition dict_update :: "('k \<times> 'v) list \<Rightarrow> ('k \<times> 'v) list \<Rightarrow> ('k \<times> 'v) list" where
  "dict_update d e = fold (\<lambda>(k, v) acc. dict_set acc k v) e d"

text \<open>\<^verbatim>\<open>x[name]\<close> with a string subscript: KeyError for a missing key of a dictionary,
  TypeError for a list or a string (their indices must be integers) and for an object
  that is not subscriptable.\<close>

fun py_getitem :: "pyval \<Rightarrow> string \<Rightarrow> exn + pyval" where
  "py_getitem (PDict kvs) name =
     (case map_of kvs (KStr name) of None \<Rightarrow> Inl KeyError | Some v \<Rightarrow> Inr v)"
| "py_getitem _ name = Inl TypeError"

definition key_value :: "pykey \<Rightarrow> pyval" where
  "key_value k = (case k of KInt n \<Rightarrow> PInt n | KStr s \<Rightarrow> PStr s)"

text \<open>Iteration (\<^verbatim>\<open>for x in v\<close>): a list yields its elements, a dictionary its keys, a
  string its characters; anything else is not iterable.\<close>

fun py_iter :: "pyval \<Rightarrow> exn + pyval list" where
  "py_iter (PList xs) = Inr xs"
| "py_iter (PDict kvs) = Inr (map (key_value \<circ> fst) kvs)"
| "py_iter (PStr s) = Inr (map (\<lambda>c. PStr [c]) s)"
| "py_iter _ = Inl TypeError"

text \<open>\<^verbatim>\<open>x == n\<close> for an int \<open>n\<close>: numbers compare by value (and \<^verbatim>\<open>True == 1\<close>), every
  other object is different from an int.\<close>

fun py_eq_int :: "pyval \<Rightarrow> int \<Rightarrow> bool" where
  "py_eq_int (PInt m) n = (m = n)"
| "py_eq_int (PBool b) n = ((if b then 1 else 0) = n)"
| "py_eq_int (PFloat r) n = (r = of_int n)"
| "py_eq_int _ n = False"

text \<open>True division \<^verbatim>\<open>a / b\<close>.\<close>

definition py_truediv :: "rat \<Rightarrow> rat \<Rightarrow> exn + rat" where
  "py_truediv a b = (if b = 0 then Inl ZeroDivisionError else Inr (a / b))"

section \<open>Fetching one manager's squad\<close>

text \<open>
  The remote API is outside the program. One request ends in a reply with a status code and
  a body (\<open>None\<close> when the body is not JSON), or in a transport exception.
\<close>

datatype response = HttpResponse int "pyval option" | RequestException

text \<open>\<^verbatim>\<open>get_manager_squad\<close>: the body of a 200 reply; \<^verbatim>\<open>None\<close> for another status, and for
  every exception, which the function catches itself.\<close>

fun get_manager_squad :: "response \<Rightarrow> pyval" where
  "get_manager_squad (HttpResponse code body) =
     (if code = 200 then (case body of Some v \<Rightarrow> v | None \<Rightarrow> PNone) else PNone)"
| "get_manager_squad RequestException = PNone"

datatype action = Request nat | Sleep rat

text \<open>
  \<^verbatim>\<open>get_manager_squad_safe\<close> (the second definition of that name, which replaces the first):
  \<^verbatim>\<open>for attempt in range(max_retries)\<close>. The argument \<open>fetch\<close> gives the outcome of the call
  \<^verbatim>\<open>self.get_manager_squad(manager_id)\<close> at each attempt. The result is the returned value
  with the requests made and the pauses taken, in order.
\<close>

fun retry_from :: "(nat \<Rightarrow> exn + pyval) \<Rightarrow> rat \<Rightarrow> nat \<Rightarrow> nat \<Rightarrow> pyval \<times> action list" where
  "retry_from fetch retry_delay attempt 0 = (PNone, [])"
| "retry_from fetch retry_delay attempt (Suc n) =
     (case fetch attempt of
        Inr squad \<Rightarrow>
          if truthy squad then (squad, [Request attempt])
          else (let (r, acts) = retry_from fetch retry_delay (Suc attempt) n
                in (r, Request attempt # Sleep (retry_delay * (1 / 2)) # acts))
      | Inl e \<Rightarrow>
          (let (r, acts) = retry_from fetch retry_delay (Suc attempt) n
           in (r, Request attempt # Sleep retry_delay # acts)))"

definition get_manager_squad_safe ::
  "(nat \<Rightarrow> exn + pyval) \<Rightarrow> rat \<Rightarrow> nat \<Rightarrow> pyval \<times> action list" where
  "get_manager_squad_safe fetch retry_delay max_retries = retry_from fetch retry_delay 0 max_retries"

text \<open>The call made by the batch fetch: \<^verbatim>\<open>max_retries\<close> keeps its default 3, and the
  attempts of one task are the replies \<open>replies 0\<close>, \<open>replies 1\<close>, ...\<close>

definition fetch_task :: "(nat \<Rightarrow> response) \<Rightarrow> rat \<Rightarrow> pyval \<times> action list" where
  "fetch_task replies retry_delay =
     get_manager_squad_safe (\<lambda>k. Inr (get_manager_squad (replies k))) retry_delay 3"

section \<open>The analyzer and the batch fetch\<close>

text \<open>
  The fields of \<^verbatim>\<open>FPLCombinationAnalyzer\<close> that the cache and the fetch use. The bootstrap
  data is \<open>None\<close> until it is fetched; of its content only the list of gameweeks
  (\<^verbatim>\<open>events\<close>, each with its \<^verbatim>\<open>id\<close> and \<^verbatim>\<open>is_current\<close>) is read here.
\<close>

record gw_event =
  gw_id :: int
  is_current :: bool

record analyzer =
  bootstrap_data :: "gw_event list option"
  league_data :: pyval
  manager_squads :: pyval
  current_league_id :: "int option"

record speed_config =
  cfg_batch_size :: int
  cfg_max_workers :: int
  cfg_delay :: rat
  cfg_retry_delay :: rat

definition speed_configs :: "string \<Rightarrow> speed_config option" where
  "speed_configs mode =
     (if mode = ''conservative'' then
        Some \<lparr>cfg_batch_size = 200, cfg_max_workers = 3, cfg_delay = 1, cfg_retry_delay = 1\<rparr>
      else if mode = ''moderate'' then
        Some \<lparr>cfg_batch_size = 500, cfg_max_workers = 8, cfg_delay = 1 / 2, cfg_retry_delay = 1 / 2\<rparr>
      else if mode = ''aggressive'' then
        Some \<lparr>cfg_batch_size = 1000, cfg_max_workers = 15, cfg_delay = 1 / 10, cfg_retry_delay = 2 / 10\<rparr>
      else if mode = ''maximum'' then
        Some \<lparr>cfg_batch_size = 2000, cfg_max_workers = 25, cfg_delay = 0, cfg_retry_delay = 1 / 10\<rparr>
      else None)"

text \<open>The settings in force: those of a named mode, else the caller's batch size and worker
  count with both delays 1.0.\<close>

definition settings :: "int \<Rightarrow> int \<Rightarrow> string \<Rightarrow> speed_config" where
  "settings batch_size max_workers speed_mode =
     (case speed_configs speed_mode of
        Some config \<Rightarrow> config
      | None \<Rightarrow> \<lparr>cfg_batch_size = batch_size, cfg_max_workers = max_workers,
                  cfg_delay = 1, cfg_retry_delay = 1\<rparr>)"

text \<open>
  A task is a manager id with its position in \<^verbatim>\<open>manager_ids\<close>. The slices
  \<^verbatim>\<open>manager_ids[i:i + batch_size]\<close> for \<^verbatim>\<open>i in range(0, len(manager_ids), batch_size)\<close>,
  for a positive batch size:
\<close>

function batches :: "nat \<Rightarrow> 'a list \<Rightarrow> 'a list list" where
  "batches n xs = (if n = 0 \<or> xs = [] then [] else take n xs # batches n (drop n xs))"
  by pat_completeness auto
termination
  by (relation "measure (\<lambda>(n, xs). length xs)") auto

declare batches.simps [simp del]

type_synonym task = "nat \<times> int"

text \<open>
  The replies of the remote API are a parameter: \<open>api p k\<close> is the reply to attempt \<open>k\<close> of
  the task at position \<open>p\<close>. The order in which the futures of a batch complete
  (\<^verbatim>\<open>as_completed\<close>) is a parameter too: \<open>sched b ts\<close> lists the tasks of batch number \<open>b\<close>
  in completion order.
\<close>

text \<open>One completed future: \<^verbatim>\<open>if squad: all_squads[manager_id] = squad\<close>.\<close>

definition collect :: "(nat \<Rightarrow> nat \<Rightarrow> response) \<Rightarrow> rat \<Rightarrow> task \<Rightarrow> pydict \<Rightarrow> pydict" where
  "collect api retry_delay t all_squads =
     (let squad = fst (fetch_task (api (fst t)) retry_delay)
      in if truthy squad then dict_set all_squads (KInt (snd t)) squad else all_squads)"

text \<open>The success rate reported after batch \<open>batch_num\<close>, whose slice starts at \<open>i\<close>.\<close>

definition success_rate :: "nat \<Rightarrow> int \<Rightarrow> nat \<Rightarrow> nat \<Rightarrow> nat \<Rightarrow> nat \<Rightarrow> exn + rat" where
  "success_rate batch_num batch_size i len_batch len_ids len_squads =
     (if batch_num = 0 then
        map_sum id (\<lambda>q. q * 100)
          (py_truediv (of_nat len_squads) (of_int ((int batch_num + 1) * batch_size)))
      else
        map_sum id (\<lambda>q. q * 100)
          (py_truediv (of_nat len_squads) (of_nat (min len_ids (i + len_batch)))))"

text \<open>
  The loop over the batches. Each batch opens a thread pool, which refuses a worker count
  below 1 with a ValueError. The pauses between batches and the timing figures change no
  value and are left out; the averaged time is guarded by \<^verbatim>\<open>if all_squads\<close> in the source.
\<close>

fun batch_loop ::
  "(nat \<Rightarrow> nat \<Rightarrow> response) \<Rightarrow> (nat \<Rightarrow> task list \<Rightarrow> task list) \<Rightarrow> nat \<Rightarrow> speed_config \<Rightarrow>
   nat \<Rightarrow> task list list \<Rightarrow> pydict \<Rightarrow> exn + pydict" where
  "batch_loop api sched len_ids config batch_num [] all_squads = Inr all_squads"
| "batch_loop api sched len_ids config batch_num (batch_ids # rest) all_squads =
     (if cfg_max_workers config \<le> 0 then Inl ValueError
      else
        let all_squads' = fold (collect api (cfg_retry_delay config)) (sched batch_num batch_ids) all_squads
        in case success_rate batch_num (cfg_batch_size config)
                  (batch_num * nat (cfg_batch_size config)) (length batch_ids) len_ids
                  (length all_squads') of
             Inl e \<Rightarrow> Inl e
           | Inr rate \<Rightarrow> batch_loop api sched len_ids config (Suc batch_num) rest all_squads')"

text \<open>
  \<^verbatim>\<open>fetch_manager_squads_batch\<close>. The result is the analyzer after the call with the returned
  dictionary or the exception that leaves the function. The number of batches is computed
  first, by a floor division by the batch size; a negative batch size gives an empty range.
  \<^verbatim>\<open>self.manager_squads = all_squads\<close> comes before the closing report, which divides by
  \<^verbatim>\<open>len(manager_ids)\<close>.
\<close>

definition fetch_manager_squads_batch ::
  "analyzer \<Rightarrow> (nat \<Rightarrow> nat \<Rightarrow> response) \<Rightarrow> (nat \<Rightarrow> task list \<Rightarrow> task list) \<Rightarrow>
   int list \<Rightarrow> int \<Rightarrow> int \<Rightarrow> string \<Rightarrow> analyzer \<times> (exn + pydict)" where
  "fetch_manager_squads_batch st api sched manager_ids batch_size max_workers speed_mode =
     (let config = settings batch_size max_workers speed_mode
      in if cfg_batch_size config = 0 then (st, Inl ZeroDivisionError)
         else
           case batch_loop api sched (length manager_ids) config 0
                  (if cfg_batch_size config < 0 then []
                   else batches (nat (cfg_batch_size config))
                          (zip [0..<length manager_ids] manager_ids))
                  [] of
             Inl e \<Rightarrow> (st, Inl e)
           | Inr all_squads \<Rightarrow>
               (case py_truediv (of_nat (length all_squads)) (of_nat (length manager_ids)) of
                  Inl e \<Rightarrow> (st\<lparr>manager_squads := PDict all_squads\<rparr>, Inl e)
                | Inr ratio \<Rightarrow> (st\<lparr>manager_squads := PDict all_squads\<rparr>, Inr all_squads)))"

section \<open>The cache store\<close>

text \<open>\<^verbatim>\<open>str(n)\<close> for an int, as an f-string formats the league id and the gameweek.\<close>

definition digit_char :: "nat \<Rightarrow> char" where
  "digit_char d = ''0123456789'' ! d"

function str_nat :: "nat \<Rightarrow> string" where
  "str_nat n = (if n < 10 then [digit_char n] else str_nat (n div 10) @ [digit_char (n mod 10)])"
  by pat_completeness auto
termination
  by (relation "measure (\<lambda>n. n)") auto

declare str_nat.simps [simp del]

definition str_int :: "int \<Rightarrow> string" where
  "str_int i = (if i < 0 then CHR ''-'' # str_nat (nat (- i)) else str_nat (nat i))"

text \<open>The gameweek used when none is given: the id of the first current event of the
  bootstrap data, 1 when there is none or no bootstrap data.\<close>

definition default_gameweek :: "analyzer \<Rightarrow> int" where
  "default_gameweek st =
     (case bootstrap_data st of
        None \<Rightarrow> 1
      | Some events \<Rightarrow> (case filter is_current events of [] \<Rightarrow> 1 | gw # _ \<Rightarrow> gw_id gw))"

definition cache_stem :: "analyzer \<Rightarrow> int \<Rightarrow> int option \<Rightarrow> string" where
  "cache_stem st league_id gameweek =
     ''fpl_cache/league_'' @ str_int league_id @ ''_gw_'' @
     str_int (case gameweek of None \<Rightarrow> default_gameweek st | Some g \<Rightarrow> g)"

definition get_cache_filename :: "analyzer \<Rightarrow> int \<Rightarrow> int option \<Rightarrow> string" where
  "get_cache_filename st league_id gameweek = cache_stem st league_id gameweek @ ''.pkl''"

definition get_cache_info_filename :: "analyzer \<Rightarrow> int \<Rightarrow> int option \<Rightarrow> string" where
  "get_cache_info_filename st league_id gameweek = cache_stem st league_id gameweek @ ''_info.json''"

text \<open>
  The metadata written beside the pickle, a JSON object. The ISO text of an instant
  (\<^verbatim>\<open>datetime.now().isoformat()\<close>) is modelled by the instant itself, an int of microseconds.
\<close>

definition cache_info :: "int \<Rightarrow> int option \<Rightarrow> nat \<Rightarrow> int \<Rightarrow> nat \<Rightarrow> pyval" where
  "cache_info league_id gameweek squad_count now league_total =
     PDict [(KStr ''league_id'', PInt league_id),
            (KStr ''gameweek'', case gameweek of None \<Rightarrow> PNone | Some g \<Rightarrow> PInt g),
            (KStr ''manager_count'', PInt (int squad_count)),
            (KStr ''cached_at'', PInt now),
            (KStr ''total_managers_in_league'', PInt (int league_total))]"

text \<open>
  \<^verbatim>\<open>datetime.fromisoformat(x)\<close>: the instant of an ISO text. A string of the model stands for
  a text that is not an ISO date (ValueError); an object that is not a string is refused
  with a TypeError.
\<close>

fun fromisoformat :: "pyval \<Rightarrow> exn + int" where
  "fromisoformat (PInt t) = Inr t"
| "fromisoformat (PStr s) = Inl ValueError"
| "fromisoformat _ = Inl TypeError"

text \<open>
  A file holds a pickled object or a JSON value; \<open>Truncated\<close> is a file that has been opened
  for writing and not yet written and closed, from which neither \<^verbatim>\<open>pickle.load\<close> nor
  \<^verbatim>\<open>json.load\<close> can read an object. The file system maps paths to files.
\<close>

datatype disk_file = Truncated | Pickle pyval | Json pyval

type_synonym filesystem = "string \<rightharpoonup> disk_file"

definition cache_exists :: "analyzer \<Rightarrow> filesystem \<Rightarrow> int \<Rightarrow> int option \<Rightarrow> bool" where
  "cache_exists st fs league_id gameweek =
     (fs (get_cache_filename st league_id gameweek) \<noteq> None \<and>
      fs (get_cache_info_filename st league_id gameweek) \<noteq> None)"

text \<open>\<^verbatim>\<open>len(self.league_data['standings']['results']) if self.league_data else 0\<close>\<close>

definition league_size :: "pyval \<Rightarrow> exn + nat" where
  "league_size ld =
     (if truthy ld then
        (case py_getitem ld ''standings'' of
           Inl e \<Rightarrow> Inl e
         | Inr standings \<Rightarrow>
             (case py_getitem standings ''results'' of
                Inl e \<Rightarrow> Inl e
              | Inr results \<Rightarrow> py_len results))
      else Inr 0)"

definition cache_data :: "analyzer \<Rightarrow> pyval" where
  "cache_data st =
     PDict [(KStr ''manager_squads'', manager_squads st), (KStr ''league_data'', league_data st)]"

text \<open>
  \<^verbatim>\<open>save_manager_squads_cache\<close>, as the file-system states it goes through, one for each
  file operation, with the returned flag. The pickle is opened (which empties it), written
  and closed; then the metadata is computed, and its file is opened and written. An exception
  in between is caught and gives \<open>False\<close>, with the pickle already on disk.
\<close>

definition save_states ::
  "analyzer \<Rightarrow> int \<Rightarrow> filesystem \<Rightarrow> int \<Rightarrow> int option \<Rightarrow> filesystem list \<times> bool" where
  "save_states st now fs league_id gameweek =
     (let cache_file = get_cache_filename st league_id gameweek;
          info_file = get_cache_info_filename st league_id gameweek;
          fs1 = fs(cache_file \<mapsto> Truncated);
          fs2 = fs1(cache_file \<mapsto> Pickle (cache_data st))
      in case py_len (manager_squads st) of
           Inl e \<Rightarrow> ([fs1, fs2], False)
         | Inr squad_count \<Rightarrow>
             (case league_size (league_data st) of
                Inl e \<Rightarrow> ([fs1, fs2], False)
              | Inr league_total \<Rightarrow>
                  (let fs3 = fs2(info_file \<mapsto> Truncated);
                       fs4 = fs3(info_file \<mapsto>
                               Json (cache_info league_id gameweek squad_count now league_total))
                   in ([fs1, fs2, fs3, fs4], True))))"

definition save_manager_squads_cache ::
  "analyzer \<Rightarrow> int \<Rightarrow> filesystem \<Rightarrow> int \<Rightarrow> int option \<Rightarrow> filesystem \<times> bool" where
  "save_manager_squads_cache st now fs league_id gameweek =
     (let (states, ok) = save_states st now fs league_id gameweek in (last states, ok))"

text \<open>One hour, the age beyond which a cache is called stale, in microseconds.\<close>

definition one_hour :: int where
  "one_hour = 3600 * 1000000"

text \<open>
  \<^verbatim>\<open>load_manager_squads_cache\<close>. \<open>use_cache\<close> is the operator's lower-cased reply to the
  prompt, read only when the cache is stale and \<open>skip_prompt\<close> is off. Every exception is
  caught and gives \<open>False\<close>: a file that cannot be read, metadata without
  \<^verbatim>\<open>cached_at\<close> or with one that is no date, and, after the fields of the analyzer have been
  assigned, an object without a length or metadata without \<^verbatim>\<open>total_managers_in_league\<close>
  (both are printed). An object that is a dictionary with the key \<^verbatim>\<open>manager_squads\<close> is the
  new format; any other object is taken as the squads themselves (the legacy format).
\<close>

definition load_manager_squads_cache ::
  "analyzer \<Rightarrow> int \<Rightarrow> filesystem \<Rightarrow> int \<Rightarrow> int option \<Rightarrow> bool \<Rightarrow> string \<Rightarrow> analyzer \<times> bool" where
  "load_manager_squads_cache st now fs league_id gameweek skip_prompt use_cache =
     (case (fs (get_cache_filename st league_id gameweek),
            fs (get_cache_info_filename st league_id gameweek)) of
        (Some cache_file, Some (Json info)) \<Rightarrow>
          (case py_getitem info ''cached_at'' of
             Inl e \<Rightarrow> (st, False)
           | Inr stamp \<Rightarrow>
               (case fromisoformat stamp of
                  Inl e \<Rightarrow> (st, False)
                | Inr cached_time \<Rightarrow>
                    if now - cached_time > one_hour \<and> \<not> skip_prompt \<and> use_cache = ''n''
                    then (st, False)
                    else
                      (case cache_file of
                         Pickle cached_data \<Rightarrow>
                           (let st' =
                              (case cached_data of
                                 PDict kvs \<Rightarrow>
                                   (case map_of kvs (KStr ''manager_squads'') of
                                      Some squads \<Rightarrow>
                                        st\<lparr>manager_squads := squads,
                                           league_data :=
                                             (case map_of kvs (KStr ''league_data'') of
                                                None \<Rightarrow> PNone | Some ld \<Rightarrow> ld)\<rparr>
                                    | None \<Rightarrow>
                                        st\<lparr>manager_squads := cached_data, league_data := PNone\<rparr>)
                               | _ \<Rightarrow> st\<lparr>manager_squads := cached_data, league_data := PNone\<rparr>)
                            in case py_len (manager_squads st') of
                                 Inl e \<Rightarrow> (st', False)
                               | Inr n \<Rightarrow>
                                   (case py_getitem info ''total_managers_in_league'' of
                                      Inl e \<Rightarrow> (st', False)
                                    | Inr league_total \<Rightarrow> (st', True)))
                       | _ \<Rightarrow> (st, False))))
      | _ \<Rightarrow> (st, False))"

section \<open>Coverage check, gap fetch and merge\<close>

text \<open>\<^verbatim>\<open>x.keys()\<close> and \<^verbatim>\<open>x.update(e)\<close>: only a dictionary has these methods.\<close>

fun py_keys :: "pyval \<Rightarrow> exn + pykey list" where
  "py_keys (PDict kvs) = Inr (map fst kvs)"
| "py_keys _ = Inl AttributeError"

fun py_update :: "pyval \<Rightarrow> pydict \<Rightarrow> exn + pyval" where
  "py_update (PDict kvs) e = Inr (PDict (dict_update kvs e))"
| "py_update _ e = Inl AttributeError"

text \<open>
  The local variables of \<^verbatim>\<open>interactive_analysis\<close> after the coverage check: \<^verbatim>\<open>skip_fetch\<close>, the
  list \<^verbatim>\<open>manager_ids\<close> as it then stands (\<open>plan_ids\<close>; it is handed to the fetch unless the
  fetch is skipped), and whether \<^verbatim>\<open>missing_manager_ids\<close> has been assigned.
\<close>

record fetch_plan =
  skip_fetch :: bool
  plan_ids :: "int list"
  missing_defined :: bool

text \<open>
  The check itself. \<open>manager_ids\<close> are the ids of the league standings and \<open>extend_cache\<close> is
  the operator's lower-cased reply to "Fetch missing managers?". The test is
  \<^verbatim>\<open>cached_count >= total_count * 0.95\<close> on the two lengths. The product is a double in the
  source; it is the exact product here, which decides the comparison the same way for every
  list of fewer than \<open>10^14\<close> ids (the double nearest to 0.95 differs from it by less than
  \<open>5 * 10^-17\<close>, while \<open>19 * n / 20\<close> is an integer or at least \<open>1 / 20\<close> away from one).
  Both branches print \<^verbatim>\<open>cached_count/total_count*100\<close>.
\<close>

definition reconcile :: "analyzer \<Rightarrow> int list \<Rightarrow> string \<Rightarrow> exn + fetch_plan" where
  "reconcile st manager_ids extend_cache =
     (if truthy (manager_squads st) then
        (case py_len (manager_squads st) of
           Inl e \<Rightarrow> Inl e
         | Inr cached_count \<Rightarrow>
             (let total_count = length manager_ids
              in if (of_nat total_count :: rat) * (95 / 100) \<le> of_nat cached_count then
                   (case py_truediv (of_nat cached_count) (of_nat total_count) of
                      Inl e \<Rightarrow> Inl e
                    | Inr shown \<Rightarrow>
                        Inr \<lparr>skip_fetch = True, plan_ids = manager_ids, missing_defined = False\<rparr>)
                 else
                   (case py_truediv (of_nat cached_count) (of_nat total_count) of
                      Inl e \<Rightarrow> Inl e
                    | Inr shown \<Rightarrow>
                        if extend_cache \<noteq> ''n'' then
                          (case py_keys (manager_squads st) of
                             Inl e \<Rightarrow> Inl e
                           | Inr cached_manager_ids \<Rightarrow>
                               Inr \<lparr>skip_fetch = False,
                                    plan_ids =
                                      filter (\<lambda>mid. KInt mid \<notin> set cached_manager_ids) manager_ids,
                                    missing_defined = True\<rparr>)
                        else
                          Inr \<lparr>skip_fetch = True, plan_ids = manager_ids,
                               missing_defined = False\<rparr>)))
      else Inr \<lparr>skip_fetch = False, plan_ids = manager_ids, missing_defined = False\<rparr>)"

text \<open>The operator's choice of speed: one of the four named modes, or custom numbers. The
  custom call passes the mode \<^verbatim>\<open>'conservative'\<close> along with the numbers.\<close>

datatype speed_choice = Preset string | Custom int int

definition fetch_with_choice ::
  "analyzer \<Rightarrow> (nat \<Rightarrow> nat \<Rightarrow> response) \<Rightarrow> (nat \<Rightarrow> task list \<Rightarrow> task list) \<Rightarrow>
   int list \<Rightarrow> speed_choice \<Rightarrow> analyzer \<times> (exn + pydict)" where
  "fetch_with_choice st api sched manager_ids choice =
     (case choice of
        Custom batch_size max_workers \<Rightarrow>
          fetch_manager_squads_batch st api sched manager_ids batch_size max_workers ''conservative''
      | Preset speed_mode \<Rightarrow>
          fetch_manager_squads_batch st api sched manager_ids 200 5 speed_mode)"

datatype outcome = Raised exn | AskAgain | FetchFailed | Ready

text \<open>
  The fetch section of \<^verbatim>\<open>interactive_analysis\<close>: nothing when the fetch is skipped; else
  the fetch, the return on an empty result ("Failed to fetch manager squads"), the merge
  \<^verbatim>\<open>self.manager_squads.update(new_squads)\<close> when a cache was loaded and the missing ids were
  computed, and the save. The fetch has assigned \<^verbatim>\<open>self.manager_squads\<close> by then.
\<close>

definition fetch_section ::
  "analyzer \<Rightarrow> int \<Rightarrow> filesystem \<Rightarrow> (nat \<Rightarrow> nat \<Rightarrow> response) \<Rightarrow> (nat \<Rightarrow> task list \<Rightarrow> task list) \<Rightarrow>
   int \<Rightarrow> int option \<Rightarrow> bool \<Rightarrow> fetch_plan \<Rightarrow> speed_choice \<Rightarrow> analyzer \<times> filesystem \<times> outcome" where
  "fetch_section st now fs api sched league_id current_gw cache_loaded plan choice =
     (if skip_fetch plan then (st, fs, Ready)
      else
        case fetch_with_choice st api sched (plan_ids plan) choice of
          (st1, Inl e) \<Rightarrow> (st1, fs, Raised e)
        | (st1, Inr new_squads) \<Rightarrow>
            if \<not> truthy (PDict new_squads) then (st1, fs, FetchFailed)
            else if cache_loaded \<and> missing_defined plan then
              (case py_update (manager_squads st1) new_squads of
                 Inl e \<Rightarrow> (st1, fs, Raised e)
               | Inr merged \<Rightarrow>
                   (let st2 = st1\<lparr>manager_squads := merged\<rparr>
                    in (st2, fst (save_manager_squads_cache st2 now fs league_id current_gw), Ready)))
            else (st1, fst (save_manager_squads_cache st1 now fs league_id current_gw), Ready))"

text \<open>
  \<^verbatim>\<open>[entry['entry'] for entry in self.league_data['standings']['results']]\<close>. The ids of the
  API are ints, and ints are what the fetch is given (\<^verbatim>\<open>List[int]\<close>); an entry whose id is
  another object is outside the model, and is refused here with a TypeError that the source
  does not raise.
\<close>

fun entry_ids :: "pyval list \<Rightarrow> exn + int list" where
  "entry_ids [] = Inr []"
| "entry_ids (entry # entries) =
     (case py_getitem entry ''entry'' of
        Inl e \<Rightarrow> Inl e
      | Inr (PInt manager_id) \<Rightarrow>
          (case entry_ids entries of Inl e \<Rightarrow> Inl e | Inr ids \<Rightarrow> Inr (manager_id # ids))
      | Inr other \<Rightarrow> Inl TypeError)"

definition league_manager_ids :: "pyval \<Rightarrow> exn + int list" where
  "league_manager_ids ld =
     (case py_getitem ld ''standings'' of
        Inl e \<Rightarrow> Inl e
      | Inr standings \<Rightarrow>
          (case py_getitem standings ''results'' of
             Inl e \<Rightarrow> Inl e
           | Inr results \<Rightarrow>
               (case py_iter results of Inl e \<Rightarrow> Inl e | Inr entries \<Rightarrow> entry_ids entries)))"

text \<open>
  The coverage check and the fetch section in sequence (lines 602 to 698 of
  \<^verbatim>\<open>interactive_analysis\<close>), from the analyzer as it is once the league is known: the
  manager ids are those of its league data.
\<close>

definition ensure_squads ::
  "analyzer \<Rightarrow> int \<Rightarrow> filesystem \<Rightarrow> (nat \<Rightarrow> nat \<Rightarrow> response) \<Rightarrow> (nat \<Rightarrow> task list \<Rightarrow> task list) \<Rightarrow>
   int \<Rightarrow> int option \<Rightarrow> bool \<Rightarrow> string \<Rightarrow> speed_choice \<Rightarrow> analyzer \<times> filesystem \<times> outcome" where
  "ensure_squads st now fs api sched league_id current_gw cache_loaded extend_cache choice =
     (case league_manager_ids (league_data st) of
        Inl e \<Rightarrow> (st, fs, Raised e)
      | Inr manager_ids \<Rightarrow>
          (case reconcile st manager_ids extend_cache of
             Inl e \<Rightarrow> (st, fs, Raised e)
           | Inr plan \<Rightarrow>
               fetch_section st now fs api sched league_id current_gw cache_loaded plan choice))"

section \<open>How the session comes to its league\<close>

text \<open>
  \<^verbatim>\<open>get_league_info\<close>. \<open>reply\<close> is what \<^verbatim>\<open>get_league_data\<close> returns, the standings fetched
  from the API or \<^verbatim>\<open>None\<close>; it is assigned to \<^verbatim>\<open>self.league_data\<close> before anything is tested.
\<close>

definition get_league_info :: "analyzer \<Rightarrow> int \<Rightarrow> pyval \<Rightarrow> analyzer \<times> bool" where
  "get_league_info st league_id reply =
     (let st1 = st\<lparr>league_data := reply\<rparr>
      in if \<not> truthy reply then (st1, False)
         else
           case py_getitem reply ''standings'' of
             Inl e \<Rightarrow> (st1, False)
           | Inr standings \<Rightarrow>
               (case py_getitem standings ''results'' of
                  Inl e \<Rightarrow> (st1, False)
                | Inr results \<Rightarrow>
                    (case py_len results of
                       Inl e \<Rightarrow> (st1, False)
                     | Inr managers_count \<Rightarrow> (st1\<lparr>current_league_id := Some league_id\<rparr>, True))))"

text \<open>The gameweek of a session and of a web request: \<^verbatim>\<open>None\<close> without bootstrap data, else
  the current one.\<close>

definition session_gameweek :: "analyzer \<Rightarrow> int option" where
  "session_gameweek st =
     (case bootstrap_data st of None \<Rightarrow> None | Some events \<Rightarrow> Some (default_gameweek st))"

text \<open>The league data that the session makes up from a loaded cache:
  \<^verbatim>\<open>{'standings': {'results': [{'entry': manager_id} for manager_id in ...keys()]}}\<close>.\<close>

definition league_from_keys :: "pykey list \<Rightarrow> pyval" where
  "league_from_keys keys =
     PDict [(KStr ''standings'',
             PDict [(KStr ''results'',
                     PList (map (\<lambda>k. PDict [(KStr ''entry'', key_value k)]) keys))])]"

text \<open>
  One pass of the loop that opens \<^verbatim>\<open>interactive_analysis\<close> (lines 530 to 600), for a league
  id that has been typed in. The cache is loaded from the files \<open>fs\<close>; \<open>stale_reply\<close> and
  \<open>use_cache\<close> are the operator's lower-cased replies to the two prompts. If the cache is
  loaded and used, the metadata file is read once more, from the files as they are by then
  (\<open>fs_later\<close>, the same as \<open>fs\<close> unless another process has written or removed files in the
  meantime), and the league data are made up from the keys of the cache; if that file is
  gone, or anything in that step raises, the league is fetched from the API instead, as it is
  when no cache is used. The result is the analyzer, whether a cache was loaded, and whether
  the loop is left (it is not when the league could not be fetched). The listing of the
  cached leagues, which comes before the load and prints only, is left out.
\<close>

definition choose_league ::
  "analyzer \<Rightarrow> int \<Rightarrow> filesystem \<Rightarrow> int \<Rightarrow> string \<Rightarrow> string \<Rightarrow> filesystem \<Rightarrow> pyval \<Rightarrow>
   analyzer \<times> bool \<times> bool" where
  "choose_league st now fs league_id stale_reply use_cache fs_later reply =
     (let current_gw = session_gameweek st;
          (st1, cache_loaded) =
            load_manager_squads_cache st now fs league_id current_gw False stale_reply
      in if cache_loaded then
           if use_cache \<noteq> ''n'' then
             (let st2 = st1\<lparr>current_league_id := Some league_id\<rparr>
              in case fs_later (get_cache_info_filename st2 league_id current_gw) of
                   Some (Json (PDict kvs)) \<Rightarrow>
                     (case (py_len (manager_squads st2), py_keys (manager_squads st2)) of
                        (Inr n, Inr keys) \<Rightarrow>
                          (st2\<lparr>league_data := league_from_keys keys\<rparr>, cache_loaded, True)
                      | _ \<Rightarrow>
                          (let (st3, ok) = get_league_info st2 league_id reply
                           in (st3, cache_loaded, ok)))
                 | _ \<Rightarrow>
                     (let (st3, ok) = get_league_info st2 league_id reply
                      in (st3, cache_loaded, ok)))
           else
             (let (st3, ok) = get_league_info (st1\<lparr>manager_squads := PDict []\<rparr>) league_id reply
              in (st3, cache_loaded, ok))
         else
           (let (st3, ok) = get_league_info st1 league_id reply
            in (st3, cache_loaded, ok)))"

text \<open>
  The session up to the queries: the league, then the coverage check and the fetch section,
  which saves at the time \<open>later\<close> into the files as they are by then.
\<close>

definition analysis_session ::
  "analyzer \<Rightarrow> int \<Rightarrow> filesystem \<Rightarrow> int \<Rightarrow> string \<Rightarrow> string \<Rightarrow> filesystem \<Rightarrow> pyval \<Rightarrow>
   int \<Rightarrow> (nat \<Rightarrow> nat \<Rightarrow> response) \<Rightarrow> (nat \<Rightarrow> task list \<Rightarrow> task list) \<Rightarrow> string \<Rightarrow> speed_choice \<Rightarrow>
   analyzer \<times> filesystem \<times> outcome" where
  "analysis_session st now fs league_id stale_reply use_cache fs_later reply
     later api sched extend_cache choice =
     (case choose_league st now fs league_id stale_reply use_cache fs_later reply of
        (st1, cache_loaded, leave) \<Rightarrow>
          if leave then
            ensure_squads st1 later fs_later api sched league_id (session_gameweek st1)
              cache_loaded extend_cache choice
          else (st1, fs_later, AskAgain))"

section \<open>The fetch of the web route\<close>

text \<open>
  The web route \<^verbatim>\<open>load_league\<close> from the point where no cache was found and
  \<^verbatim>\<open>get_league_info\<close> has succeeded (lines 186 to 205 of the web application): the manager
  ids of the league are fetched with the default settings, the result of the fetch is not
  looked at, the squads are saved and the answer is a success with the number of squads
  held. Any exception gives the answer 500.
\<close>

datatype web_answer = Success nat | ServerError

definition load_league_fetch ::
  "analyzer \<Rightarrow> int \<Rightarrow> filesystem \<Rightarrow> (nat \<Rightarrow> nat \<Rightarrow> response) \<Rightarrow> (nat \<Rightarrow> task list \<Rightarrow> task list) \<Rightarrow>
   int \<Rightarrow> analyzer \<times> filesystem \<times> web_answer" where
  "load_league_fetch st now fs api sched league_id =
     (case league_manager_ids (league_data st) of
        Inl e \<Rightarrow> (st, fs, ServerError)
      | Inr manager_ids \<Rightarrow>
          (case fetch_manager_squads_batch st api sched manager_ids 200 5 ''conservative'' of
             (st1, Inl e) \<Rightarrow> (st1, fs, ServerError)
           | (st1, Inr all_squads) \<Rightarrow>
               (let fs1 = fst (save_manager_squads_cache st1 now fs league_id (session_gameweek st1))
                in case py_len (manager_squads st1) of
                     Inl e \<Rightarrow> (st1, fs1, ServerError)
                   | Inr manager_count \<Rightarrow> (st1, fs1, Success manager_count))))"

section \<open>The combination query\<close>

text \<open>\<^verbatim>\<open>[pick['element'] for pick in squad_data['picks']]\<close>\<close>

fun pick_elements :: "pyval list \<Rightarrow> exn + pyval list" where
  "pick_elements [] = Inr []"
| "pick_elements (pick # picks) =
     (case py_getitem pick ''element'' of
        Inl e \<Rightarrow> Inl e
      | Inr x \<Rightarrow> (case pick_elements picks of Inl e \<Rightarrow> Inl e | Inr xs \<Rightarrow> Inr (x # xs)))"

definition squad_player_ids :: "pyval \<Rightarrow> exn + pyval list" where
  "squad_player_ids squad_data =
     (case py_getitem squad_data ''picks'' of
        Inl e \<Rightarrow> Inl e
      | Inr picks \<Rightarrow> (case py_iter picks of Inl e \<Rightarrow> Inl e | Inr ps \<Rightarrow> pick_elements ps))"

text \<open>
  The comparison \<^verbatim>\<open>x == pid\<close> of an element of the list with a wanted id, with the
  exception it may raise. In the web route the ids are Python ints (\<^verbatim>\<open>int(player['id'])\<close>)
  and the comparison is \<open>py_eq_int\<close>. In \<^verbatim>\<open>find_player_combinations\<close> they are the
  \<^verbatim>\<open>numpy.int64\<close> values of the player table: a number is compared by value; on any other
  object the outcome is the one numpy gives (an element-wise comparison whose truth value may
  be true, false or a ValueError), which is the parameter \<open>other\<close>.
\<close>

type_synonym id_eq = "pyval \<Rightarrow> int \<Rightarrow> exn + bool"

definition python_eq :: id_eq where
  "python_eq x n = Inr (py_eq_int x n)"

fun numeric :: "pyval \<Rightarrow> bool" where
  "numeric (PInt m) = True"
| "numeric (PBool b) = True"
| "numeric (PFloat r) = True"
| "numeric _ = False"

definition numpy_eq :: "id_eq \<Rightarrow> id_eq" where
  "numpy_eq other x n = (if numeric x then Inr (py_eq_int x n) else other x n)"

text \<open>\<^verbatim>\<open>pid in squad_player_ids\<close>: the elements are compared in order, up to the first that
  is equal.\<close>

fun contains :: "id_eq \<Rightarrow> pyval list \<Rightarrow> int \<Rightarrow> exn + bool" where
  "contains eq [] pid = Inr False"
| "contains eq (x # xs) pid =
     (case eq x pid of
        Inl e \<Rightarrow> Inl e
      | Inr b \<Rightarrow> if b then Inr True else contains eq xs pid)"

text \<open>\<^verbatim>\<open>all(pid in squad_player_ids for pid in player_ids)\<close>: the wanted ids are looked up in
  order, up to the first that is missing.\<close>

fun has_all :: "id_eq \<Rightarrow> pyval list \<Rightarrow> int list \<Rightarrow> exn + bool" where
  "has_all eq ids [] = Inr True"
| "has_all eq ids (pid # pids) =
     (case contains eq ids pid of
        Inl e \<Rightarrow> Inl e
      | Inr b \<Rightarrow> if b then has_all eq ids pids else Inr False)"

text \<open>
  The loop over \<^verbatim>\<open>self.manager_squads.items()\<close>, the same in \<^verbatim>\<open>find_player_combinations\<close> and
  in the web route \<^verbatim>\<open>analyze_combination\<close> but for the comparison. A KeyError or TypeError
  raised for an entry skips it (\<^verbatim>\<open>continue\<close>); any other exception leaves the loop.
\<close>

fun scan_squads :: "id_eq \<Rightarrow> pydict \<Rightarrow> int list \<Rightarrow> exn + pykey list" where
  "scan_squads eq [] player_ids = Inr []"
| "scan_squads eq ((manager_id, squad_data) # rest) player_ids =
     (case (case squad_player_ids squad_data of
              Inl e \<Rightarrow> Inl e
            | Inr ids \<Rightarrow> has_all eq ids player_ids) of
        Inl e \<Rightarrow> if e = KeyError \<or> e = TypeError then scan_squads eq rest player_ids else Inl e
      | Inr holds_all \<Rightarrow>
          (case scan_squads eq rest player_ids of
             Inl e \<Rightarrow> Inl e
           | Inr found \<Rightarrow> Inr (if holds_all then manager_id # found else found)))"

record results =
  player_names :: "string list"
  player_ids :: "int list"
  matching_managers :: "pykey list"
  total_managers_checked :: nat
  combination_count :: nat

text \<open>The names are resolved one by one by the player table (the parameter \<open>lookup\<close>, the id of
  the first row whose full name contains the name); the first unknown name ends the search.\<close>

fun resolve_players :: "(string \<Rightarrow> int option) \<Rightarrow> string list \<Rightarrow> int list option" where
  "resolve_players lookup [] = Some []"
| "resolve_players lookup (name # names) =
     (case lookup name of
        None \<Rightarrow> None
      | Some player_id \<Rightarrow> map_option ((#) player_id) (resolve_players lookup names))"

text \<open>\<^verbatim>\<open>find_player_combinations\<close>: the matching managers and the results, which are the empty
  dictionary (\<open>None\<close>) when no squads are loaded or a name is unknown.\<close>

definition find_player_combinations ::
  "analyzer \<Rightarrow> id_eq \<Rightarrow> (string \<Rightarrow> int option) \<Rightarrow> string list \<Rightarrow>
   exn + pykey list \<times> results option" where
  "find_player_combinations st other lookup names =
     (if \<not> truthy (manager_squads st) then Inr ([], None)
      else
        case resolve_players lookup names of
          None \<Rightarrow> Inr ([], None)
        | Some pids \<Rightarrow>
            (case manager_squads st of
               PDict squads \<Rightarrow>
                 (case scan_squads (numpy_eq other) squads pids of
                    Inl e \<Rightarrow> Inl e
                  | Inr found \<Rightarrow>
                      Inr (found,
                           Some \<lparr>player_names = names, player_ids = pids,
                                 matching_managers = found,
                                 total_managers_checked = length squads,
                                 combination_count = length found\<rparr>))
             | _ \<Rightarrow> Inl AttributeError))"

text \<open>The matching managers of the web route \<^verbatim>\<open>analyze_combination\<close>, for the ids it has
  resolved.\<close>

definition analyze_combination_matches :: "analyzer \<Rightarrow> int list \<Rightarrow> exn + pykey list" where
  "analyze_combination_matches st pids =
     (case manager_squads st of
        PDict squads \<Rightarrow> scan_squads python_eq squads pids
      | _ \<Rightarrow> Inl AttributeError)"

text \<open>The percentage shown by \<^verbatim>\<open>print_results\<close>, computed when there is a match.\<close>

definition percentage :: "results \<Rightarrow> rat" where
  "percentage r = of_nat (combination_count r) / of_nat (total_managers_checked r) * 100"

section \<open>Notions used in the statements\<close>

text \<open>The task at position \<open>p\<close> succeeds: one of its three attempts gets a 200 reply whose
  body is a non-empty object.\<close>

definition fetched :: "(nat \<Rightarrow> nat \<Rightarrow> response) \<Rightarrow> nat \<Rightarrow> bool" where
  "fetched api p = list_ex (\<lambda>k. truthy (get_manager_squad (api p k))) [0..<3]"

text \<open>An entry of the squads matches the wanted players: its payload yields its list of
  player ids without an exception, and every wanted id is in that list.\<close>

definition matches :: "int list \<Rightarrow> pykey \<times> pyval \<Rightarrow> bool" where
  "matches pids entry =
     (case squad_player_ids (snd entry) of
        Inl e \<Rightarrow> False
      | Inr ids \<Rightarrow> list_all (\<lambda>pid. list_ex (\<lambda>x. py_eq_int x pid) ids) pids)"

text \<open>Every element that the picks of an entry yield is a number.\<close>

definition numeric_ids :: "pykey \<times> pyval \<Rightarrow> bool" where
  "numeric_ids entry =
     (case squad_player_ids (snd entry) of Inl e \<Rightarrow> True | Inr ids \<Rightarrow> list_all numeric ids)"

text \<open>
  The coverage reconciliation in the words of the specification (section 4.3), to be compared
  with \<open>reconcile\<close>: coverage is the share of the required ids that are cached; at 0.95 or
  more the fetch is skipped and nothing is to be fetched, below it the required ids that are
  not cached are.
\<close>

definition spec_coverage :: "int list \<Rightarrow> int list \<Rightarrow> rat" where
  "spec_coverage cached_ids required_ids =
     of_nat (card (set cached_ids \<inter> set required_ids)) / of_nat (card (set required_ids))"

definition spec_reconcile :: "int list \<Rightarrow> int list \<Rightarrow> bool \<times> int set" where
  "spec_reconcile cached_ids required_ids =
     (if cached_ids = [] then (False, set required_ids)
      else if 95 / 100 \<le> spec_coverage cached_ids required_ids then (True, {})
      else (False, set required_ids - set cached_ids))"

section \<open>Example inputs\<close>

definition pick :: "int \<Rightarrow> pyval" where
  "pick n = PDict [(KStr ''element'', PInt n)]"

definition squad_of :: "int list \<Rightarrow> pyval" where
  "squad_of ns = PDict [(KStr ''picks'', PList (map pick ns))]"

definition always_down :: "nat \<Rightarrow> response" where
  "always_down k = RequestException"

definition api_first_down :: "nat \<Rightarrow> nat \<Rightarrow> response" where
  "api_first_down p k =
     (if p = 0 then RequestException else HttpResponse 200 (Some (squad_of [10, 20])))"

definition api_all_down :: "nat \<Rightarrow> nat \<Rightarrow> response" where
  "api_all_down p k = HttpResponse 503 None"

definition new_analyzer :: analyzer where
  "new_analyzer = \<lparr>bootstrap_data = None, league_data = PNone, manager_squads = PDict [],
                    current_league_id = None\<rparr>"

definition api_up :: "nat \<Rightarrow> nat \<Rightarrow> response" where
  "api_up p k = HttpResponse 200 (Some (squad_of [10, 20]))"

definition cached_7 :: analyzer where
  "cached_7 = new_analyzer\<lparr>manager_squads := PDict [(KInt 7, squad_of [10])]\<rparr>"

definition league_of :: "int list \<Rightarrow> pyval" where
  "league_of ms =
     PDict [(KStr ''standings'',
             PDict [(KStr ''results'', PList (map (\<lambda>m. PDict [(KStr ''entry'', PInt m)]) ms))])]"

definition two_squads :: analyzer where
  "two_squads =
     new_analyzer\<lparr>manager_squads := PDict [(KInt 7, squad_of [10]), (KInt 8, squad_of [10, 20])],
                  league_data := league_of [7, 8]\<rparr>"

text \<open>The files left by a save of \<open>cached_7\<close> for league 1, gameweek 1, at time 0, and the
  files of a record of the same league in the legacy format.\<close>

definition disk_7 :: filesystem where
  "disk_7 = fst (save_manager_squads_cache cached_7 0 Map.empty 1 (Some 1))"

definition legacy_disk :: filesystem where
  "legacy_disk =
     [''fpl_cache/league_1_gw_1.pkl'' \<mapsto> Pickle (PDict [(KInt 7, squad_of [10])]),
      ''fpl_cache/league_1_gw_1_info.json'' \<mapsto> Json (cache_info 1 (Some 1) 1 0 2)]"

text \<open>The player table of the examples, the three squads of the specification's query
  example, and a dictionary whose second member has a payload without picks.\<close>

definition lookup_player :: "string \<Rightarrow> int option" where
  "lookup_player = map_of [(''Salah'', 10), (''Saka'', 20), (''Haaland'', 30)]"

definition three_squads :: analyzer where
  "three_squads =
     new_analyzer\<lparr>manager_squads :=
       PDict [(KInt 1, squad_of [10, 20, 30]), (KInt 2, squad_of [10, 20]),
              (KInt 3, squad_of [10, 20, 30, 40])]\<rparr>"

definition with_malformed :: analyzer where
  "with_malformed =
     new_analyzer\<lparr>manager_squads := PDict [(KInt 1, squad_of [10]), (KInt 2, PDict [])]\<rparr>"

definition with_non_match :: analyzer where
  "with_non_match =
     new_analyzer\<lparr>manager_squads := PDict [(KInt 1, squad_of [10]), (KInt 2, squad_of [20])]\<rparr>"

definition without_second :: analyzer where
  "without_second = new_analyzer\<lparr>manager_squads := PDict [(KInt 1, squad_of [10])]\<rparr>"

text \<open>Squads whose second member has a pick with a list for its element, and numpy's answer
  when an id is compared with a list of two or more elements: the truth value of the
  element-wise comparison is ambiguous. (On other objects this example answers false.)\<close>

definition with_list_element :: analyzer where
  "with_list_element =
     new_analyzer\<lparr>manager_squads :=
       PDict [(KInt 1, squad_of [10]),
              (KInt 2, PDict [(KStr ''picks'',
                               PList [PDict [(KStr ''element'', PList [PInt 10, PInt 20])]])])]\<rparr>"

definition numpy_on_lists :: id_eq where
  "numpy_on_lists x n = (case x of PList (a # b # xs) \<Rightarrow> Inl ValueError | _ \<Rightarrow> Inr False)"

definition in_order :: "nat \<Rightarrow> task list \<Rightarrow> task list" where
  "in_order b ts = ts"

definition last_first :: "nat \<Rightarrow> task list \<Rightarrow> task list" where
  "last_first b ts = rev ts"

text \<open>The analyzer of a session once \<^verbatim>\<open>initialize_data\<close> has succeeded, in gameweek 1, and
  the same once \<^verbatim>\<open>get_league_info\<close> has fetched league 1 with the members 11 and 12.\<close>

definition session_start :: analyzer where
  "session_start = new_analyzer\<lparr>bootstrap_data := Some [\<lparr>gw_id = 1, is_current = True\<rparr>]\<rparr>"

definition league_11_12 :: analyzer where
  "league_11_12 = fst (get_league_info session_start 1 (league_of [11, 12]))"

text \<open>
  An API that serves the first task and answers 503 to the second, and the files that a
  first session leaves at time 0 when it starts without files, is given league 1 with the
  members 7 and 8 and fetches them from that API: a record that holds the squad of member 7
  only, for a league of two.
\<close>

definition api_second_down :: "nat \<Rightarrow> nat \<Rightarrow> response" where
  "api_second_down p k =
     (if p = 1 then HttpResponse 503 None else HttpResponse 200 (Some (squad_of [10])))"

definition first_session_disk :: filesystem where
  "first_session_disk =
     fst (snd (analysis_session session_start 0 Map.empty 1 ''y'' ''y'' Map.empty
                 (league_of [7, 8]) 0 api_second_down in_order ''y'' (Preset ''conservative'')))"

section \<open>Dictionaries\<close>

lemma map_of_dict_set: "map_of (dict_set kvs k v) = (map_of kvs)(k \<mapsto> v)"
  by (induction kvs k v rule: dict_set.induct) auto

lemma keys_dict_set: "fst ` set (dict_set kvs k v) = insert k (fst ` set kvs)"
  by (induction kvs k v rule: dict_set.induct) auto

lemma distinct_dict_set:
  "distinct (map fst kvs) \<Longrightarrow> distinct (map fst (dict_set kvs k v))"
  by (induction kvs k v rule: dict_set.induct) (auto simp: keys_dict_set)

lemma dict_set_not_Nil: "dict_set kvs k v \<noteq> []"
  by (cases kvs) (auto split: if_splits)

lemma dict_set_same:
  "distinct (map fst kvs) \<Longrightarrow> (k, v) \<in> set kvs \<Longrightarrow> dict_set kvs k v = kvs"
  by (induction kvs k v rule: dict_set.induct) (auto simp: rev_image_eqI)

lemma fold_dict_set_same:
  "distinct (map fst d) \<Longrightarrow> set e \<subseteq> set d \<Longrightarrow> fold (\<lambda>(k, v) acc. dict_set acc k v) e d = d"
  by (induction e) (auto simp: dict_set_same)

lemma dict_update_self: "distinct (map fst d) \<Longrightarrow> dict_update d d = d"
  by (simp add: dict_update_def fold_dict_set_same)

lemma map_of_fold_dict_set:
  "map_of (fold (\<lambda>(k, v) acc. dict_set acc k v) e d) = map_of d ++ map_of (rev e)"
  by (induction e arbitrary: d) (auto simp: map_of_dict_set map_add_def fun_eq_iff split: option.splits)

lemma map_of_rev_distinct: "distinct (map fst xs) \<Longrightarrow> map_of (rev xs) = map_of xs"
  by (induction xs) (auto simp: map_add_def fun_eq_iff image_iff split: option.splits dest!: map_of_SomeD)

lemma map_of_dict_update:
  "distinct (map fst e) \<Longrightarrow> map_of (dict_update d e) = map_of d ++ map_of e"
  by (simp add: dict_update_def map_of_fold_dict_set map_of_rev_distinct)

section \<open>The retry loop\<close>

lemma retry_from_fails:
  "\<forall>k<n. \<exists>v. fetch (a + k) = Inr v \<and> \<not> truthy v \<Longrightarrow>
   retry_from fetch rd a n =
     (PNone, concat (map (\<lambda>k. [Request (a + k), Sleep (rd * (1 / 2))]) [0..<n]))"
proof (induction n arbitrary: a)
  case 0
  then show ?case by simp
next
  case (Suc n)
  from Suc.prems have "\<exists>v. fetch (a + 0) = Inr v \<and> \<not> truthy v" by blast
  then obtain v where v: "fetch a = Inr v" "\<not> truthy v" by auto
  have "\<forall>k<n. \<exists>v. fetch (Suc a + k) = Inr v \<and> \<not> truthy v"
    using Suc.prems by (metis Suc_less_eq add_Suc_shift)
  from Suc.IH[OF this] show ?case using v
    by (simp add: upt_rec[of 0 "Suc n"] map_Suc_upt[symmetric] comp_def del: upt_Suc)
qed

lemma truthy_retry_from:
  "truthy (fst (retry_from fetch rd a n)) \<longleftrightarrow> (\<exists>k<n. \<exists>v. fetch (a + k) = Inr v \<and> truthy v)"
proof (induction n arbitrary: a)
  case 0
  then show ?case by simp
next
  case (Suc n)
  have ex: "(\<exists>k<Suc n. P k) \<longleftrightarrow> P 0 \<or> (\<exists>k<n. P (Suc k))" for P
    by (metis less_Suc_eq_0_disj)
  show ?case
    by (cases "fetch a") (auto simp: ex Suc.IH[of "Suc a", simplified] split_def Let_def)
qed

lemma fetched_iff: "fetched api p \<longleftrightarrow> (\<exists>k<3. truthy (get_manager_squad (api p k)))"
  by (auto simp: fetched_def list_ex_iff)

lemma truthy_fetch_task: "truthy (fst (fetch_task (api p) rd)) \<longleftrightarrow> fetched api p"
  by (simp add: fetched_iff fetch_task_def get_manager_squad_safe_def truthy_retry_from)

section \<open>The batch loop\<close>

lemma keys_collect:
  "fst ` set (collect api rd t acc) =
     fst ` set acc \<union> (if fetched api (fst t) then {KInt (snd t)} else {})"
  by (simp add: collect_def Let_def keys_dict_set truthy_fetch_task)

lemma keys_fold_collect:
  "fst ` set (fold (collect api rd) ts acc) =
     fst ` set acc \<union> (\<lambda>t. KInt (snd t)) ` {t \<in> set ts. fetched api (fst t)}"
  by (induction ts arbitrary: acc) (auto simp: keys_collect)

lemma distinct_collect:
  "distinct (map fst acc) \<Longrightarrow> distinct (map fst (collect api rd t acc))"
  by (simp add: collect_def Let_def distinct_dict_set)

lemma distinct_fold_collect:
  "distinct (map fst acc) \<Longrightarrow> distinct (map fst (fold (collect api rd) ts acc))"
  by (induction ts arbitrary: acc) (auto simp: distinct_collect)

lemma success_rate_ok:
  "0 < bs \<Longrightarrow> 0 < len_ids \<Longrightarrow> \<exists>r. success_rate b bs (b * nat bs) lb len_ids ls = Inr r"
  by (cases b) (auto simp: success_rate_def py_truediv_def)

lemma batch_loop_keys:
  assumes "\<And>b ts. set (sched b ts) = set ts"
      and "batch_loop api sched len_ids config b bss acc = Inr r"
  shows "fst ` set r =
           fst ` set acc \<union>
           (\<lambda>t. KInt (snd t)) `
             {t \<in> \<Union> (set ` set bss). fetched api (fst t)}"
  using assms(2)
proof (induction bss arbitrary: b acc)
  case Nil
  then show ?case by simp
next
  case (Cons batch_ids rest)
  let ?acc = "fold (collect api (cfg_retry_delay config)) (sched b batch_ids) acc"
  from Cons.prems have "batch_loop api sched len_ids config (Suc b) rest ?acc = Inr r"
    by (auto simp: Let_def split: if_splits sum.splits)
  from Cons.IH[OF this] show ?case
    by (auto simp: keys_fold_collect assms(1))
qed

lemma batch_loop_distinct:
  "batch_loop api sched len_ids config b bss acc = Inr r \<Longrightarrow> distinct (map fst acc) \<Longrightarrow>
   distinct (map fst r)"
proof (induction bss arbitrary: b acc)
  case Nil
  then show ?case by simp
next
  case (Cons batch_ids rest)
  let ?acc = "fold (collect api (cfg_retry_delay config)) (sched b batch_ids) acc"
  from Cons.prems have "batch_loop api sched len_ids config (Suc b) rest ?acc = Inr r"
    by (auto simp: Let_def split: if_splits sum.splits)
  from Cons.IH[OF this] Cons.prems(2) show ?case
    by (simp add: distinct_fold_collect)
qed

lemma batch_loop_returns:
  "0 < cfg_batch_size config \<Longrightarrow> 0 < cfg_max_workers config \<Longrightarrow> 0 < len_ids \<Longrightarrow>
   \<exists>r. batch_loop api sched len_ids config b bss acc = Inr r"
proof (induction bss arbitrary: b acc)
  case Nil
  then show ?case by simp
next
  case (Cons batch_ids rest)
  let ?acc = "fold (collect api (cfg_retry_delay config)) (sched b batch_ids) acc"
  obtain rate where "success_rate b (cfg_batch_size config) (b * nat (cfg_batch_size config))
      (length batch_ids) len_ids (length ?acc) = Inr rate"
    using success_rate_ok[OF Cons.prems(1,3)] by blast
  then show ?case
    using Cons.IH[OF Cons.prems, of "Suc b" ?acc] Cons.prems(2) by (simp add: Let_def)
qed

lemma batch_loop_no_workers:
  "cfg_max_workers config \<le> 0 \<Longrightarrow> bss \<noteq> [] \<Longrightarrow>
   batch_loop api sched len_ids config b bss acc = Inl ValueError"
  by (cases bss) auto

lemma concat_batches: "0 < n \<Longrightarrow> concat (batches n xs) = xs"
proof (induction n xs rule: batches.induct)
  case (1 n xs)
  then show ?case by (subst batches.simps) auto
qed

lemma set_batches: "0 < n \<Longrightarrow> \<Union> (set ` set (batches n xs)) = set xs"
  using concat_batches[of n xs] by (metis set_concat)

lemma tasks_iff:
  "(p, m) \<in> set (zip [0..<length ids] ids) \<longleftrightarrow> p < length ids \<and> ids ! p = m"
  by (auto simp: in_set_zip intro!: exI[of _ p])

lemma settings_preset:
  "speed_configs mode = Some c \<Longrightarrow> 0 < cfg_batch_size c \<and> 0 < cfg_max_workers c"
  by (auto simp: speed_configs_def split: if_splits)

lemma settings_valid:
  "speed_configs mode \<noteq> None \<or> (0 < bs \<and> 0 < mw) \<Longrightarrow>
   0 < cfg_batch_size (settings bs mw mode) \<and> 0 < cfg_max_workers (settings bs mw mode)"
  by (auto simp: settings_def dest: settings_preset split: option.splits)

lemma fetch_result:
  assumes sched: "\<And>b ts. set (sched b ts) = set ts"
      and ne: "manager_ids \<noteq> []"
      and ok: "0 < cfg_batch_size (settings bs mw mode)" "0 < cfg_max_workers (settings bs mw mode)"
  shows "\<exists>r. fetch_manager_squads_batch st api sched manager_ids bs mw mode =
               (st\<lparr>manager_squads := PDict r\<rparr>, Inr r) \<and>
             distinct (map fst r) \<and>
             fst ` set r = {KInt (manager_ids ! p) | p. p < length manager_ids \<and> fetched api p}"
proof -
  let ?config = "settings bs mw mode"
  let ?tasks = "zip [0..<length manager_ids] manager_ids"
  let ?bss = "batches (nat (cfg_batch_size ?config)) ?tasks"
  from ne have len: "0 < length manager_ids" by simp
  obtain r where r: "batch_loop api sched (length manager_ids) ?config 0 ?bss [] = Inr r"
    using batch_loop_returns[OF ok len] by blast
  have "\<Union> (set ` set ?bss) = set ?tasks"
    using ok(1) by (simp add: set_batches)
  with batch_loop_keys[OF sched r]
  have "fst ` set r = (\<lambda>t. KInt (snd t)) ` {t \<in> set ?tasks. fetched api (fst t)}"
    by simp
  also have "\<dots> = {KInt (manager_ids ! p) | p. p < length manager_ids \<and> fetched api p}"
    by (auto simp: tasks_iff image_iff)
  finally have keys: "fst ` set r = {KInt (manager_ids ! p) | p. p < length manager_ids \<and> fetched api p}" .
  have dist: "distinct (map fst r)"
    using batch_loop_distinct[OF r] by simp
  have "fetch_manager_squads_batch st api sched manager_ids bs mw mode =
          (st\<lparr>manager_squads := PDict r\<rparr>, Inr r)"
    using ok(1) r ne by (simp add: fetch_manager_squads_batch_def Let_def py_truediv_def)
  with keys dist show ?thesis by blast
qed

lemma batches_Nil: "batches n [] = []"
  by (subst batches.simps) simp

lemma fetch_empty:
  "snd (fetch_manager_squads_batch st api sched [] bs mw mode) = Inl ZeroDivisionError"
  by (simp add: fetch_manager_squads_batch_def Let_def py_truediv_def batches_Nil)

section \<open>The fetch section of the session\<close>

lemma settings_choice:
  "0 < cfg_batch_size (case choice of Custom b w \<Rightarrow> settings b w ''conservative'' | Preset m \<Rightarrow> settings 200 5 m) \<and>
   0 < cfg_max_workers (case choice of Custom b w \<Rightarrow> settings b w ''conservative'' | Preset m \<Rightarrow> settings 200 5 m)"
proof (cases choice)
  case (Preset m)
  then show ?thesis using settings_valid[of m 200 5] by simp
next
  case (Custom b w)
  have "speed_configs ''conservative'' \<noteq> None" by (simp add: speed_configs_def)
  then show ?thesis using Custom settings_valid[of "''conservative''" b w] by simp
qed

lemma fetch_with_choice_result:
  assumes sched: "\<And>b ts. set (sched b ts) = set ts"
      and ne: "manager_ids \<noteq> []"
  shows "\<exists>r. fetch_with_choice st api sched manager_ids choice =
               (st\<lparr>manager_squads := PDict r\<rparr>, Inr r) \<and>
             distinct (map fst r) \<and>
             fst ` set r = {KInt (manager_ids ! p) | p. p < length manager_ids \<and> fetched api p}"
proof (cases choice)
  case (Preset m)
  have ok: "0 < cfg_batch_size (settings 200 5 m)" "0 < cfg_max_workers (settings 200 5 m)"
    using settings_choice[of "Preset m"] by simp_all
  show ?thesis
    using fetch_result[where st = st and api = api, OF sched ne ok] by (simp add: fetch_with_choice_def Preset)
next
  case (Custom b w)
  have ok: "0 < cfg_batch_size (settings b w ''conservative'')"
           "0 < cfg_max_workers (settings b w ''conservative'')"
    using settings_choice[of "Custom b w"] by simp_all
  show ?thesis
    using fetch_result[where st = st and api = api, OF sched ne ok] by (simp add: fetch_with_choice_def Custom)
qed

lemma fetch_section_result:
  assumes sched: "\<And>b ts. set (sched b ts) = set ts"
      and ne: "plan_ids plan \<noteq> []"
      and go: "\<not> skip_fetch plan"
  shows "\<exists>r. fetch_with_choice st api sched (plan_ids plan) choice =
               (st\<lparr>manager_squads := PDict r\<rparr>, Inr r) \<and>
             distinct (map fst r) \<and>
             fst ` set r = {KInt (plan_ids plan ! p) | p. p < length (plan_ids plan) \<and> fetched api p} \<and>
             fetch_section st now fs api sched league_id current_gw cache_loaded plan choice =
               (if r = [] then (st\<lparr>manager_squads := PDict r\<rparr>, fs, FetchFailed)
                else (st\<lparr>manager_squads := PDict r\<rparr>,
                      fst (save_manager_squads_cache (st\<lparr>manager_squads := PDict r\<rparr>) now fs
                             league_id current_gw),
                      Ready))"
proof -
  from fetch_with_choice_result[where st = st and api = api and choice = choice, OF sched ne]
  obtain r where rr: "fetch_with_choice st api sched (plan_ids plan) choice =
               (st\<lparr>manager_squads := PDict r\<rparr>, Inr r) \<and>
             distinct (map fst r) \<and>
             fst ` set r = {KInt (plan_ids plan ! p) | p. p < length (plan_ids plan) \<and> fetched api p}"
    by (rule exE)
  note r = rr[THEN conjunct1] and dist = rr[THEN conjunct2, THEN conjunct1]
  have "fetch_section st now fs api sched league_id current_gw cache_loaded plan choice =
               (if r = [] then (st\<lparr>manager_squads := PDict r\<rparr>, fs, FetchFailed)
                else (st\<lparr>manager_squads := PDict r\<rparr>,
                      fst (save_manager_squads_cache (st\<lparr>manager_squads := PDict r\<rparr>) now fs
                             league_id current_gw),
                      Ready))"
    using go dist by (simp add: fetch_section_def r dict_update_self Let_def)
  with rr show ?thesis by (intro exI[of _ r] conjI) simp_all
qed

section \<open>Retry and exclusion of a failing member\<close>



lemma fetch_task_fails:
  assumes "\<forall>k<3. \<not> truthy (get_manager_squad (replies k))"
  shows "fetch_task replies rd =
           (PNone, [Request 0, Sleep (rd * (1 / 2)), Request 1, Sleep (rd * (1 / 2)),
                    Request 2, Sleep (rd * (1 / 2))])"
proof -
  have "\<forall>k<3. \<exists>v. (\<lambda>k. Inr (get_manager_squad (replies k)) :: exn + pyval) (0 + k) = Inr v \<and> \<not> truthy v"
    using assms by simp
  from retry_from_fails[OF this, of rd] show ?thesis
    by (simp add: fetch_task_def get_manager_squad_safe_def eval_nat_numeral)
qed

text \<open>
  C2, as stated, at a member whose every request ends in a transport failure, with a retry
  delay of 1: the claim has a pause of 0.5 before the first retry and of 1 before the second.
  The code pauses 0.5 after each of the three attempts. The pause before the second retry is
  the fourth action.
\<close>

theorem retry_pause_counterexample:
  "snd (fetch_task always_down 1) =
     [Request 0, Sleep (1 / 2), Request 1, Sleep (1 / 2), Request 2, Sleep (1 / 2)] \<and>
   snd (fetch_task always_down 1) ! 3 \<noteq> Sleep 1"
  by (simp add: fetch_task_def get_manager_squad_safe_def always_down_def eval_nat_numeral)

text \<open>
  C2, amended. Take a member all of whose requests fail (a transport failure, a status other
  than 200, or an empty or null body), at every position where its id is listed. Its fetch
  makes exactly three requests and pauses half the retry delay after each of them, the last
  included, then gives \<open>None\<close>. The batch fetch returns a dictionary without raising, the
  member's id is not among its keys, and the dictionary is non-empty as soon as some member
  succeeded.
\<close>

theorem retry_exhaustion:
  assumes "\<And>b ts. set (sched b ts) = set ts"
      and "speed_configs mode \<noteq> None \<or> (0 < bs \<and> 0 < mw)"
      and "p < length manager_ids"
      and "\<forall>q<length manager_ids. manager_ids ! q = manager_ids ! p \<longrightarrow>
             (\<forall>k<3. \<not> truthy (get_manager_squad (api q k)))"
  shows "fetch_task (api p) rd =
           (PNone, [Request 0, Sleep (rd * (1 / 2)), Request 1, Sleep (rd * (1 / 2)),
                    Request 2, Sleep (rd * (1 / 2))]) \<and>
         (\<exists>r. fetch_manager_squads_batch st api sched manager_ids bs mw mode =
                (st\<lparr>manager_squads := PDict r\<rparr>, Inr r) \<and>
              KInt (manager_ids ! p) \<notin> fst ` set r \<and>
              ((\<exists>q<length manager_ids. fetched api q) \<longrightarrow> truthy (PDict r)))"
proof -
  have "\<forall>k<3. \<not> truthy (get_manager_squad (api p k))"
    using assms(3,4) by blast
  then have one: "fetch_task (api p) rd =
           (PNone, [Request 0, Sleep (rd * (1 / 2)), Request 1, Sleep (rd * (1 / 2)),
                    Request 2, Sleep (rd * (1 / 2))])"
    by (rule fetch_task_fails)
  from assms(3) have ne: "manager_ids \<noteq> []" by auto
  note ok = settings_valid[OF assms(2)]
  from fetch_result[OF assms(1) ne ok[THEN conjunct1] ok[THEN conjunct2], of st api]
  obtain r where rr: "fetch_manager_squads_batch st api sched manager_ids bs mw mode =
               (st\<lparr>manager_squads := PDict r\<rparr>, Inr r) \<and> distinct (map fst r) \<and>
      fst ` set r = {KInt (manager_ids ! q) | q. q < length manager_ids \<and> fetched api q}"
    by (rule exE)
  note r = rr[THEN conjunct1] and keys = rr[THEN conjunct2, THEN conjunct2]
  have out: "KInt (manager_ids ! p) \<notin> fst ` set r"
  proof
    assume "KInt (manager_ids ! p) \<in> fst ` set r"
    then obtain q where q: "q < length manager_ids" "manager_ids ! q = manager_ids ! p" "fetched api q"
      unfolding keys by auto
    with assms(4) show False unfolding fetched_iff by blast
  qed
  have some: "(\<exists>q<length manager_ids. fetched api q) \<longrightarrow> truthy (PDict r)"
  proof
    assume "\<exists>q<length manager_ids. fetched api q"
    then have "fst ` set r \<noteq> {}" unfolding keys by blast
    then show "truthy (PDict r)" by auto
  qed
  show ?thesis
    apply (rule conjI)
     apply (rule one)
    apply (rule exI[of _ r])
    apply (intro conjI r out some)
    done
qed

theorem retry_exhaustion_witness:
  "speed_configs ''maximum'' \<noteq> None \<and> (0::nat) < length [11, 12 :: int] \<and>
   fetch_task (api_first_down 0) (1 / 10) =
     (PNone, [Request 0, Sleep (1 / 10 * (1 / 2)), Request 1, Sleep (1 / 10 * (1 / 2)),
              Request 2, Sleep (1 / 10 * (1 / 2))]) \<and>
   (\<exists>r. fetch_manager_squads_batch new_analyzer api_first_down last_first [11, 12] 200 5 ''maximum'' =
          (new_analyzer\<lparr>manager_squads := PDict r\<rparr>, Inr r) \<and>
        KInt 11 \<notin> fst ` set r \<and> truthy (PDict r))"
proof -
  have h1: "\<And>b ts. set (last_first b ts) = set ts"
    by (simp add: last_first_def)
  have h2: "speed_configs ''maximum'' \<noteq> None \<or> ((0::int) < 200 \<and> (0::int) < 5)"
    by (simp add: speed_configs_def)
  have h3: "(0::nat) < length [11, 12 :: int]"
    by simp
  have h4: "\<forall>q<length [11, 12 :: int]. [11, 12 :: int] ! q = [11, 12] ! 0 \<longrightarrow>
              (\<forall>k<3. \<not> truthy (get_manager_squad (api_first_down q k)))"
    by (simp add: api_first_down_def less_Suc_eq)
  have "fetched api_first_down 1"
    by (simp add: fetched_def api_first_down_def squad_of_def numeral_3_eq_3)
  then have h5: "\<exists>q<length [11, 12 :: int]. fetched api_first_down q"
    by (intro exI[of _ 1]) simp
  from retry_exhaustion[where sched = last_first and rd = "1 / 10" and st = new_analyzer, OF h1 h2 h3 h4]
  obtain r where one: "fetch_task (api_first_down 0) (1 / 10) =
     (PNone, [Request 0, Sleep (1 / 10 * (1 / 2)), Request 1, Sleep (1 / 10 * (1 / 2)),
              Request 2, Sleep (1 / 10 * (1 / 2))])"
    and r: "fetch_manager_squads_batch new_analyzer api_first_down last_first [11, 12] 200 5 ''maximum'' =
          (new_analyzer\<lparr>manager_squads := PDict r\<rparr>, Inr r)"
    and out: "KInt ([11, 12] ! 0) \<notin> fst ` set r"
    and some: "(\<exists>q<length [11, 12 :: int]. fetched api_first_down q) \<longrightarrow> truthy (PDict r)"
    by (elim conjE exE)
  from some h5 have t: "truthy (PDict r)" ..
  from out have out': "KInt 11 \<notin> fst ` set r" by simp
  have "speed_configs ''maximum'' \<noteq> None" by (simp add: speed_configs_def)
  with h3 one r out' t show ?thesis by (intro conjI exI[of _ r])
qed

section \<open>The batch fetch\<close>

text \<open>
  C3. For every non-empty list of manager ids, under one of the four named speed modes (or a
  positive batch size and worker count), whatever the replies of the API and the order of
  completion, the batch fetch returns a dictionary, which it also stores in the analyzer,
  and every key of that dictionary is one of the requested ids.
\<close>

theorem fetch_keys_requested:
  assumes "\<And>b ts. set (sched b ts) = set ts"
      and "manager_ids \<noteq> []"
      and "speed_configs mode \<noteq> None \<or> (0 < bs \<and> 0 < mw)"
  shows "\<exists>r. fetch_manager_squads_batch st api sched manager_ids bs mw mode =
               (st\<lparr>manager_squads := PDict r\<rparr>, Inr r) \<and>
             fst ` set r \<subseteq> KInt ` set manager_ids"
proof -
  note ok = settings_valid[OF assms(3)]
  from fetch_result[where st = st and api = api, OF assms(1,2) ok[THEN conjunct1] ok[THEN conjunct2]]
  obtain r where rr: "fetch_manager_squads_batch st api sched manager_ids bs mw mode =
               (st\<lparr>manager_squads := PDict r\<rparr>, Inr r) \<and> distinct (map fst r) \<and>
      fst ` set r = {KInt (manager_ids ! q) | q. q < length manager_ids \<and> fetched api q}"
    by (rule exE)
  note r = rr[THEN conjunct1] and keys = rr[THEN conjunct2, THEN conjunct2]
  have "fst ` set r \<subseteq> KInt ` set manager_ids"
    unfolding keys by auto
  with r show ?thesis by (intro exI[of _ r] conjI)
qed

theorem fetch_keys_requested_witness:
  "[11, 12 :: int] \<noteq> [] \<and> speed_configs ''moderate'' \<noteq> None \<and>
   (\<exists>r. fetch_manager_squads_batch new_analyzer api_first_down last_first [11, 12] 200 5 ''moderate'' =
          (new_analyzer\<lparr>manager_squads := PDict r\<rparr>, Inr r) \<and>
        fst ` set r \<subseteq> KInt ` set [11, 12])"
proof -
  have h1: "\<And>b ts. set (last_first b ts) = set ts"
    by (simp add: last_first_def)
  have h2: "[11, 12 :: int] \<noteq> []"
    by simp
  have h3: "speed_configs ''moderate'' \<noteq> None"
    by (simp add: speed_configs_def)
  then have h3': "speed_configs ''moderate'' \<noteq> None \<or> ((0::int) < 200 \<and> (0::int) < 5)" ..
  from fetch_keys_requested[where sched = last_first and st = new_analyzer and api = api_first_down, OF h1 h2 h3']
  have "\<exists>r. fetch_manager_squads_batch new_analyzer api_first_down last_first [11, 12] 200 5 ''moderate'' =
          (new_analyzer\<lparr>manager_squads := PDict r\<rparr>, Inr r) \<and>
        fst ` set r \<subseteq> KInt ` set [11, 12]" .
  with h2 h3 show ?thesis by (intro conjI)
qed

text \<open>
  C10. On the empty list the batch fetch raises ZeroDivisionError, from the closing report
  (or from the batch count when the batch size is 0), whatever the other arguments; so a
  call that returns a dictionary was given a non-empty list.
\<close>

theorem fetch_empty_raises:
  "snd (fetch_manager_squads_batch st api sched [] bs mw mode) = Inl ZeroDivisionError \<and>
   (\<forall>manager_ids r. snd (fetch_manager_squads_batch st api sched manager_ids bs mw mode) = Inr r
        \<longrightarrow> manager_ids \<noteq> [])"
proof -
  have e: "snd (fetch_manager_squads_batch st api sched [] bs mw mode) = Inl ZeroDivisionError"
    by (rule fetch_empty)
  then show ?thesis by auto
qed


theorem fetch_empty_raises_witness:
  "snd (fetch_manager_squads_batch new_analyzer api_first_down in_order [] 200 5 ''conservative'') =
     Inl ZeroDivisionError \<and>
   snd (fetch_manager_squads_batch new_analyzer api_first_down in_order [11, 12] 200 5 ''conservative'') =
     Inr [(KInt 12, squad_of [10, 20])] \<and>
   [11, 12 :: int] \<noteq> []"
proof -
  note t = fetch_empty_raises[of new_analyzer api_first_down in_order 200 5 "''conservative''"]
  have r: "snd (fetch_manager_squads_batch new_analyzer api_first_down in_order [11, 12] 200 5 ''conservative'') =
     Inr [(KInt 12, squad_of [10, 20])]"
    by code_simp
  from t[THEN conjunct2] r have "[11, 12 :: int] \<noteq> []" by (elim allE impE)
  with t[THEN conjunct1] r show ?thesis by (intro conjI)
qed

section \<open>Members that fail and runs that fetch nothing\<close>

lemma load_league_fetch_result:
  assumes sched: "\<And>b ts. set (sched b ts) = set ts"
      and ne: "manager_ids \<noteq> []"
      and ids: "league_manager_ids (league_data st) = Inr manager_ids"
  shows "\<exists>r. snd (fetch_manager_squads_batch st api sched manager_ids 200 5 ''conservative'') = Inr r \<and>
             fst ` set r = {KInt (manager_ids ! p) | p. p < length manager_ids \<and> fetched api p} \<and>
             snd (snd (load_league_fetch st now fs api sched league_id)) = Success (length r)"
proof -
  have "speed_configs ''conservative'' \<noteq> None"
    by (simp add: speed_configs_def)
  then have "speed_configs ''conservative'' \<noteq> None \<or> ((0::int) < 200 \<and> (0::int) < 5)" ..
  note ok = settings_valid[OF this]
  from fetch_result[where st = st and api = api and sched = sched, OF sched ne ok[THEN conjunct1] ok[THEN conjunct2]]
  obtain r where rr: "fetch_manager_squads_batch st api sched manager_ids 200 5 ''conservative'' =
               (st\<lparr>manager_squads := PDict r\<rparr>, Inr r) \<and> distinct (map fst r) \<and>
      fst ` set r = {KInt (manager_ids ! q) | q. q < length manager_ids \<and> fetched api q}"
    by (rule exE)
  note r = rr[THEN conjunct1] and keys = rr[THEN conjunct2, THEN conjunct2]
  have a: "snd (fetch_manager_squads_batch st api sched manager_ids 200 5 ''conservative'') = Inr r"
    by (simp add: r)
  have b: "snd (snd (load_league_fetch st now fs api sched league_id)) = Success (length r)"
    by (simp add: load_league_fetch_def ids r Let_def)
  from a keys b show ?thesis by (intro exI[of _ r] conjI)
qed

text \<open>
  C7 as worded, at the members 11 and 12 of league 1 and an API that answers 503 to every
  request, so that no member succeeds. The claim has the fetch call fail, with a failure
  that is surfaced to the caller. The call returns the empty dictionary and raises nothing,
  and the web route, which does not look at what the call returns, saves the empty squads
  and answers with a success that counts 0 managers.
\<close>

theorem whole_run_failure_counterexample:
  "snd (fetch_manager_squads_batch league_11_12 api_all_down in_order [11, 12] 200 5 ''conservative'') =
     Inr [] \<and>
   league_manager_ids (league_data league_11_12) = Inr [11, 12] \<and>
   snd (snd (load_league_fetch league_11_12 0 Map.empty api_all_down in_order 1)) = Success 0"
  by code_simp

text \<open>
  C7, amended. For a non-empty list of ids, failing members abort nothing and the fetch
  call itself never fails: it returns, without an exception, a dictionary that holds the
  id of every member whose fetch succeeded, and that dictionary is empty exactly when no
  member succeeded. What becomes of a run that fetched nothing is up to the caller. The
  fetch section of the interactive session, given these ids to fetch, prints "Failed to
  fetch manager squads" and returns exactly in that case, and is ready otherwise. The web
  route, for a league whose standings list these ids, answers with a success in every case,
  with the number of squads held, which is 0 exactly in that case.
\<close>

theorem fetch_returns_successes:
  assumes "\<And>b ts. set (sched b ts) = set ts"
      and "manager_ids \<noteq> []"
      and "speed_configs mode \<noteq> None \<or> (0 < bs \<and> 0 < mw)"
  shows "(\<exists>r. fetch_manager_squads_batch st api sched manager_ids bs mw mode =
               (st\<lparr>manager_squads := PDict r\<rparr>, Inr r) \<and>
             (\<forall>p<length manager_ids. fetched api p \<longrightarrow> KInt (manager_ids ! p) \<in> fst ` set r) \<and>
             (\<not> truthy (PDict r) \<longleftrightarrow> (\<forall>p<length manager_ids. \<not> fetched api p))) \<and>
         snd (snd (fetch_section st now fs api sched league_id current_gw cache_loaded
                     \<lparr>skip_fetch = False, plan_ids = manager_ids, missing_defined = md\<rparr> choice)) =
           (if \<forall>p<length manager_ids. \<not> fetched api p then FetchFailed else Ready) \<and>
         (league_manager_ids (league_data st) = Inr manager_ids \<longrightarrow>
            (\<exists>n. snd (snd (load_league_fetch st now fs api sched league_id)) = Success n \<and>
                 (n = 0 \<longleftrightarrow> (\<forall>p<length manager_ids. \<not> fetched api p))))"
proof -
  note ok = settings_valid[OF assms(3)]
  from fetch_result[where st = st and api = api, OF assms(1,2) ok[THEN conjunct1] ok[THEN conjunct2]]
  obtain r where rr: "fetch_manager_squads_batch st api sched manager_ids bs mw mode =
               (st\<lparr>manager_squads := PDict r\<rparr>, Inr r) \<and> distinct (map fst r) \<and>
      fst ` set r = {KInt (manager_ids ! q) | q. q < length manager_ids \<and> fetched api q}"
    by (rule exE)
  note r = rr[THEN conjunct1] and keys = rr[THEN conjunct2, THEN conjunct2]
  have a: "\<forall>p<length manager_ids. fetched api p \<longrightarrow> KInt (manager_ids ! p) \<in> fst ` set r"
    unfolding keys by blast
  have "r = [] \<longleftrightarrow> fst ` set r = {}" by simp
  also have "\<dots> \<longleftrightarrow> (\<forall>p<length manager_ids. \<not> fetched api p)"
    unfolding keys by blast
  finally have b: "\<not> truthy (PDict r) \<longleftrightarrow> (\<forall>p<length manager_ids. \<not> fetched api p)"
    by simp
  have first: "\<exists>r. fetch_manager_squads_batch st api sched manager_ids bs mw mode =
               (st\<lparr>manager_squads := PDict r\<rparr>, Inr r) \<and>
             (\<forall>p<length manager_ids. fetched api p \<longrightarrow> KInt (manager_ids ! p) \<in> fst ` set r) \<and>
             (\<not> truthy (PDict r) \<longleftrightarrow> (\<forall>p<length manager_ids. \<not> fetched api p))"
    using r a b by (intro exI[of _ r] conjI)
  let ?plan = "\<lparr>skip_fetch = False, plan_ids = manager_ids, missing_defined = md\<rparr>"
  have ne: "plan_ids ?plan \<noteq> []" using assms(2) by simp
  have go: "\<not> skip_fetch ?plan" by simp
  from fetch_section_result[where st = st and api = api and now = now and fs = fs
      and league_id = league_id and current_gw = current_gw and cache_loaded = cache_loaded
      and choice = choice, OF assms(1) ne go]
  obtain r' where ss: "fetch_with_choice st api sched (plan_ids ?plan) choice =
               (st\<lparr>manager_squads := PDict r'\<rparr>, Inr r') \<and>
             distinct (map fst r') \<and>
             fst ` set r' = {KInt (plan_ids ?plan ! p) | p. p < length (plan_ids ?plan) \<and> fetched api p} \<and>
             fetch_section st now fs api sched league_id current_gw cache_loaded ?plan choice =
               (if r' = [] then (st\<lparr>manager_squads := PDict r'\<rparr>, fs, FetchFailed)
                else (st\<lparr>manager_squads := PDict r'\<rparr>,
                      fst (save_manager_squads_cache (st\<lparr>manager_squads := PDict r'\<rparr>) now fs
                             league_id current_gw),
                      Ready))"
    by (rule exE)
  note keys' = ss[THEN conjunct2, THEN conjunct2, THEN conjunct1]
    and sec = ss[THEN conjunct2, THEN conjunct2, THEN conjunct2]
  have "r' = [] \<longleftrightarrow> fst ` set r' = {}" by simp
  also have "\<dots> \<longleftrightarrow> (\<forall>p<length manager_ids. \<not> fetched api p)"
    unfolding keys' by simp
  finally have c: "r' = [] \<longleftrightarrow> (\<forall>p<length manager_ids. \<not> fetched api p)" .
  have second: "snd (snd (fetch_section st now fs api sched league_id current_gw cache_loaded ?plan choice)) =
           (if \<forall>p<length manager_ids. \<not> fetched api p then FetchFailed else Ready)"
    unfolding sec c[symmetric] by simp
  have third: "league_manager_ids (league_data st) = Inr manager_ids \<longrightarrow>
            (\<exists>n. snd (snd (load_league_fetch st now fs api sched league_id)) = Success n \<and>
                 (n = 0 \<longleftrightarrow> (\<forall>p<length manager_ids. \<not> fetched api p)))"
  proof
    assume ids: "league_manager_ids (league_data st) = Inr manager_ids"
    from load_league_fetch_result[where st = st and api = api and sched = sched and now = now
        and fs = fs and league_id = league_id, OF assms(1,2) ids]
    obtain w where ww: "snd (fetch_manager_squads_batch st api sched manager_ids 200 5 ''conservative'') = Inr w \<and>
             fst ` set w = {KInt (manager_ids ! p) | p. p < length manager_ids \<and> fetched api p} \<and>
             snd (snd (load_league_fetch st now fs api sched league_id)) = Success (length w)"
      by (rule exE)
    note wkeys = ww[THEN conjunct2, THEN conjunct1] and web = ww[THEN conjunct2, THEN conjunct2]
    have "length w = 0 \<longleftrightarrow> fst ` set w = {}" by simp
    also have "\<dots> \<longleftrightarrow> (\<forall>p<length manager_ids. \<not> fetched api p)"
      unfolding wkeys by blast
    finally have d: "length w = 0 \<longleftrightarrow> (\<forall>p<length manager_ids. \<not> fetched api p)" .
    from web d show "\<exists>n. snd (snd (load_league_fetch st now fs api sched league_id)) = Success n \<and>
                 (n = 0 \<longleftrightarrow> (\<forall>p<length manager_ids. \<not> fetched api p))"
      by (intro exI[of _ "length w"] conjI)
  qed
  from first second third show ?thesis by (intro conjI)
qed

theorem fetch_returns_successes_witness:
  "[11, 12 :: int] \<noteq> [] \<and> speed_configs ''conservative'' \<noteq> None \<and>
   league_manager_ids (league_data league_11_12) = Inr [11, 12] \<and>
   fetch_manager_squads_batch league_11_12 api_all_down in_order [11, 12] 200 5 ''conservative'' =
     (league_11_12\<lparr>manager_squads := PDict []\<rparr>, Inr []) \<and>
   snd (snd (fetch_section league_11_12 0 Map.empty api_all_down in_order 1 (Some 1) False
               \<lparr>skip_fetch = False, plan_ids = [11, 12], missing_defined = False\<rparr>
               (Preset ''conservative''))) = FetchFailed \<and>
   snd (snd (load_league_fetch league_11_12 0 Map.empty api_all_down in_order 1)) = Success 0 \<and>
   snd (snd (fetch_section league_11_12 0 Map.empty api_first_down in_order 1 (Some 1) False
               \<lparr>skip_fetch = False, plan_ids = [11, 12], missing_defined = False\<rparr>
               (Preset ''conservative''))) = Ready \<and>
   snd (snd (load_league_fetch league_11_12 0 Map.empty api_first_down in_order 1)) \<noteq> Success 0 \<and>
   snd (snd (load_league_fetch league_11_12 0 Map.empty api_first_down in_order 1)) \<noteq> ServerError"
proof -
  have h1: "\<And>b ts. set (in_order b ts) = set ts"
    by (simp add: in_order_def)
  have h2: "[11, 12 :: int] \<noteq> []"
    by simp
  have h3: "speed_configs ''conservative'' \<noteq> None"
    by (simp add: speed_configs_def)
  then have h3': "speed_configs ''conservative'' \<noteq> None \<or> ((0::int) < 200 \<and> (0::int) < 5)" ..
  have h4: "league_manager_ids (league_data league_11_12) = Inr [11, 12]"
    by code_simp
  have none: "\<forall>p<length [11, 12 :: int]. \<not> fetched api_all_down p"
    by (simp add: fetched_def api_all_down_def numeral_3_eq_3)
  have f1: "fetched api_first_down 1"
    by (simp add: fetched_def api_first_down_def squad_of_def numeral_3_eq_3)
  have l1: "1 < length [11, 12 :: int]"
    by simp
  from f1 l1 have some: "\<not> (\<forall>p<length [11, 12 :: int]. \<not> fetched api_first_down p)"
    by blast
  note t = fetch_returns_successes[where sched = in_order and st = league_11_12
      and api = api_all_down and now = 0 and fs = Map.empty and league_id = 1
      and current_gw = "Some 1" and cache_loaded = False and md = False
      and choice = "Preset ''conservative''", OF h1 h2 h3']
  note u = fetch_returns_successes[where sched = in_order and st = league_11_12
      and api = api_first_down and now = 0 and fs = Map.empty and league_id = 1
      and current_gw = "Some 1" and cache_loaded = False and md = False
      and choice = "Preset ''conservative''", OF h1 h2 h3']
  from t[THEN conjunct1]
  obtain r where r: "fetch_manager_squads_batch league_11_12 api_all_down in_order [11, 12] 200 5 ''conservative'' =
               (league_11_12\<lparr>manager_squads := PDict r\<rparr>, Inr r)"
    and b: "\<not> truthy (PDict r) \<longleftrightarrow> (\<forall>p<length [11, 12 :: int]. \<not> fetched api_all_down p)"
    by (elim exE conjE)
  from b none have "r = []" by simp
  with r have one: "fetch_manager_squads_batch league_11_12 api_all_down in_order [11, 12] 200 5 ''conservative'' =
     (league_11_12\<lparr>manager_squads := PDict []\<rparr>, Inr [])" by simp
  from t[THEN conjunct2, THEN conjunct1] none
  have two: "snd (snd (fetch_section league_11_12 0 Map.empty api_all_down in_order 1 (Some 1) False
               \<lparr>skip_fetch = False, plan_ids = [11, 12], missing_defined = False\<rparr>
               (Preset ''conservative''))) = FetchFailed"
    by simp
  from t[THEN conjunct2, THEN conjunct2, THEN mp, OF h4]
  obtain n where n: "snd (snd (load_league_fetch league_11_12 0 Map.empty api_all_down in_order 1)) = Success n"
    and n0: "n = 0 \<longleftrightarrow> (\<forall>p<length [11, 12 :: int]. \<not> fetched api_all_down p)"
    by (elim exE conjE)
  from n0 none have "n = 0" by simp
  with n have three: "snd (snd (load_league_fetch league_11_12 0 Map.empty api_all_down in_order 1)) = Success 0"
    by simp
  from u[THEN conjunct2, THEN conjunct1] some
  have four: "snd (snd (fetch_section league_11_12 0 Map.empty api_first_down in_order 1 (Some 1) False
               \<lparr>skip_fetch = False, plan_ids = [11, 12], missing_defined = False\<rparr>
               (Preset ''conservative''))) = Ready"
    by simp
  from u[THEN conjunct2, THEN conjunct2, THEN mp, OF h4]
  obtain m where m: "snd (snd (load_league_fetch league_11_12 0 Map.empty api_first_down in_order 1)) = Success m"
    and m0: "m = 0 \<longleftrightarrow> (\<forall>p<length [11, 12 :: int]. \<not> fetched api_first_down p)"
    by (elim exE conjE)
  from m0 some have "m \<noteq> 0" by simp
  with m have five: "snd (snd (load_league_fetch league_11_12 0 Map.empty api_first_down in_order 1)) \<noteq> Success 0"
    by simp
  from m have six: "snd (snd (load_league_fetch league_11_12 0 Map.empty api_first_down in_order 1)) \<noteq> ServerError"
    by simp
  from h2 h3 h4 one two three four five six show ?thesis by (intro conjI)
qed

section \<open>The coverage check\<close>

lemma threshold_iff:
  "(of_nat n :: rat) * (95 / 100) \<le> of_nat c \<longleftrightarrow> 95 * n \<le> 100 * c"
proof -
  have "(of_nat n :: rat) * (95 / 100) \<le> of_nat c \<longleftrightarrow>
        (of_nat (95 * n) :: rat) \<le> of_nat (100 * c)"
    by (simp add: field_simps)
  also have "\<dots> \<longleftrightarrow> 95 * n \<le> 100 * c"
    by (simp only: of_nat_le_iff)
  finally show ?thesis .
qed

text \<open>
  C1, as stated, at the cache \<open>{7: squad}\<close> and the required ids \<open>[8]\<close>: none of the required
  ids is cached, so the coverage of the claim is 0 and it has \<open>skip_fetch = false\<close> with 8 to
  fetch. The code compares the sizes 1 and 1 and skips the fetch.
\<close>

theorem coverage_counterexample:
  "reconcile cached_7 [8] ''y'' =
     Inr \<lparr>skip_fetch = True, plan_ids = [8], missing_defined = False\<rparr> \<and>
   py_keys (manager_squads cached_7) = Inr [KInt 7] \<and>
   spec_coverage [7] [8] = 0 \<and>
   spec_reconcile [7] [8] = (False, {8})"
  by (simp add: reconcile_def cached_7_def new_analyzer_def py_truediv_def spec_reconcile_def
      spec_coverage_def)

text \<open>
  C1, amended. For a non-empty cached dictionary and a non-empty list of required ids the
  check compares the two sizes: when the number of cached squads is at least 0.95 times the
  number of required ids (equality included) the fetch is skipped; below that, the fetch is
  skipped as well when the operator answers \<open>n\<close>, and otherwise the ids handed to the fetch
  are the required ids that are not keys of the cache, in their order, with
  \<open>skip_fetch = false\<close>. Whenever the fetch is skipped the fetch section requests nothing and
  leaves the analyzer and the files as they are.
\<close>

theorem reconcile_by_counts:
  assumes "manager_squads st = PDict squads" and "squads \<noteq> []" and "manager_ids \<noteq> []"
  shows "reconcile st manager_ids extend_cache =
           Inr (if 95 * length manager_ids \<le> 100 * length squads then
                  \<lparr>skip_fetch = True, plan_ids = manager_ids, missing_defined = False\<rparr>
                else if extend_cache = ''n'' then
                  \<lparr>skip_fetch = True, plan_ids = manager_ids, missing_defined = False\<rparr>
                else
                  \<lparr>skip_fetch = False,
                   plan_ids = filter (\<lambda>mid. KInt mid \<notin> fst ` set squads) manager_ids,
                   missing_defined = True\<rparr>) \<and>
         (\<forall>plan. reconcile st manager_ids extend_cache = Inr plan \<and> skip_fetch plan \<longrightarrow>
            fetch_section st now fs api sched league_id current_gw cache_loaded plan choice =
              (st, fs, Ready))"
proof -
  have "reconcile st manager_ids extend_cache =
           Inr (if 95 * length manager_ids \<le> 100 * length squads then
                  \<lparr>skip_fetch = True, plan_ids = manager_ids, missing_defined = False\<rparr>
                else if extend_cache = ''n'' then
                  \<lparr>skip_fetch = True, plan_ids = manager_ids, missing_defined = False\<rparr>
                else
                  \<lparr>skip_fetch = False,
                   plan_ids = filter (\<lambda>mid. KInt mid \<notin> fst ` set squads) manager_ids,
                   missing_defined = True\<rparr>)"
    using assms by (simp add: reconcile_def Let_def py_truediv_def threshold_iff)
  moreover have "\<forall>plan. reconcile st manager_ids extend_cache = Inr plan \<and> skip_fetch plan \<longrightarrow>
            fetch_section st now fs api sched league_id current_gw cache_loaded plan choice =
              (st, fs, Ready)"
    by (simp add: fetch_section_def)
  ultimately show ?thesis by (rule conjI)
qed

theorem reconcile_by_counts_witness:
  "manager_squads cached_7 = PDict [(KInt 7, squad_of [10])] \<and>
   [(KInt 7, squad_of [10])] \<noteq> [] \<and> [7, 8 :: int] \<noteq> [] \<and>
   reconcile cached_7 [7, 8] ''y'' =
     Inr \<lparr>skip_fetch = False, plan_ids = [8], missing_defined = True\<rparr> \<and>
   reconcile cached_7 [8] ''y'' =
     Inr \<lparr>skip_fetch = True, plan_ids = [8], missing_defined = False\<rparr> \<and>
   fetch_section cached_7 0 Map.empty api_up in_order 1 (Some 1) True
     \<lparr>skip_fetch = True, plan_ids = [8], missing_defined = False\<rparr> (Preset ''moderate'') =
     (cached_7, Map.empty, Ready)"
proof -
  have h1: "manager_squads cached_7 = PDict [(KInt 7, squad_of [10])]"
    by (simp add: cached_7_def new_analyzer_def)
  have h2: "[(KInt 7, squad_of [10])] \<noteq> []"
    by simp
  have h3: "[7, 8 :: int] \<noteq> []" and h3': "[8 :: int] \<noteq> []"
    by simp_all
  note a = reconcile_by_counts[where extend_cache = "''y''" and now = 0 and fs = Map.empty
      and api = api_up and sched = in_order and league_id = 1 and current_gw = "Some 1"
      and cache_loaded = True and choice = "Preset ''moderate''", OF h1 h2 h3]
  note b = reconcile_by_counts[where extend_cache = "''y''" and now = 0 and fs = Map.empty
      and api = api_up and sched = in_order and league_id = 1 and current_gw = "Some 1"
      and cache_loaded = True and choice = "Preset ''moderate''", OF h1 h2 h3']
  from a[THEN conjunct1] have r1: "reconcile cached_7 [7, 8] ''y'' =
     Inr \<lparr>skip_fetch = False, plan_ids = [8], missing_defined = True\<rparr>"
    by simp
  from b[THEN conjunct1] have r2: "reconcile cached_7 [8] ''y'' =
     Inr \<lparr>skip_fetch = True, plan_ids = [8], missing_defined = False\<rparr>"
    by simp
  from b[THEN conjunct2] r2 have r3: "fetch_section cached_7 0 Map.empty api_up in_order 1 (Some 1) True
     \<lparr>skip_fetch = True, plan_ids = [8], missing_defined = False\<rparr> (Preset ''moderate'') =
     (cached_7, Map.empty, Ready)"
    by simp
  from h1 h2 h3 r1 r2 r3 show ?thesis by (intro conjI)
qed

section \<open>The merge after a gap fetch\<close>

text \<open>
  Whatever the analyzer held before, after a fetch section that fetched something it holds
  the fetched squads and nothing else: the batch fetch has assigned them to
  \<^verbatim>\<open>self.manager_squads\<close>, so the merge updates the new dictionary with itself. (The update
  as such is a union in which the fetched entry wins, see \<open>map_of_dict_update\<close>.)
\<close>

lemma fetch_section_keeps_fetched_only:
  assumes sched: "\<And>b ts. set (sched b ts) = set ts"
      and ne: "plan_ids plan \<noteq> []"
      and go: "\<not> skip_fetch plan"
  shows "\<exists>r. snd (fetch_with_choice st api sched (plan_ids plan) choice) = Inr r \<and>
             manager_squads (fst (fetch_section st now fs api sched league_id current_gw
                                    cache_loaded plan choice)) = PDict r"
proof -
  from fetch_section_result[where sched = sched and st = st and api = api and now = now and fs = fs
      and league_id = league_id and current_gw = current_gw and cache_loaded = cache_loaded
      and choice = choice, OF sched ne go]
  obtain r where f: "fetch_with_choice st api sched (plan_ids plan) choice =
               (st\<lparr>manager_squads := PDict r\<rparr>, Inr r)"
    and sec: "fetch_section st now fs api sched league_id current_gw cache_loaded plan choice =
               (if r = [] then (st\<lparr>manager_squads := PDict r\<rparr>, fs, FetchFailed)
                else (st\<lparr>manager_squads := PDict r\<rparr>,
                      fst (save_manager_squads_cache (st\<lparr>manager_squads := PDict r\<rparr>) now fs
                             league_id current_gw),
                      Ready))"
    by (elim exE conjE)
  have a: "snd (fetch_with_choice st api sched (plan_ids plan) choice) = Inr r"
    by (simp add: f)
  have b: "manager_squads (fst (fetch_section st now fs api sched league_id current_gw
                                    cache_loaded plan choice)) = PDict r"
    by (simp add: sec)
  from a b show ?thesis by (intro exI[of _ r] conjI)
qed

text \<open>
  When is there a gap to fetch? Not when the session finds the metadata of the cache it has
  loaded: it then makes up the league from the keys of the cache, every member of that
  league is cached, and nothing is fetched. Here the second session finds the files of the
  first unchanged, and ends ready with the squad of member 7 and a league of one.
\<close>

lemma session_with_metadata_skips_fetch:
  "choose_league session_start 1 first_session_disk 1 ''y'' ''y'' first_session_disk (league_of [7, 8]) =
     (session_start\<lparr>manager_squads := PDict [(KInt 7, squad_of [10])],
                    league_data := league_of [7], current_league_id := Some 1\<rparr>, True, True) \<and>
   reconcile (fst (choose_league session_start 1 first_session_disk 1 ''y'' ''y'' first_session_disk
                     (league_of [7, 8]))) [7] ''y'' =
     Inr \<lparr>skip_fetch = True, plan_ids = [7], missing_defined = False\<rparr> \<and>
   snd (snd (analysis_session session_start 1 first_session_disk 1 ''y'' ''y'' first_session_disk
               (league_of [7, 8]) 2 api_up in_order ''y'' (Preset ''conservative''))) = Ready \<and>
   manager_squads (fst (analysis_session session_start 1 first_session_disk 1 ''y'' ''y''
                          first_session_disk (league_of [7, 8]) 2 api_up in_order ''y''
                          (Preset ''conservative''))) =
     PDict [(KInt 7, squad_of [10])]"
  by code_simp

text \<open>
  C5, at a session that reaches the merge. A first session has left a record with the squad
  \<open>a\<close> of member 7 for league 1, whose members are 7 and 8 (\<open>first_session_disk\<close>). A second
  session starts, loads that record at time 1 and is told to use it. By the time it reads
  the metadata again the record has been deleted (by the cache manager, say: no file is
  left), so it fetches the league, with the members 7 and 8, and keeps the loaded squads
  (first two lines). The coverage is one of two, the operator accepts the gap fetch and
  member 8 is to be fetched (third line); the API serves the squad \<open>b\<close>. The claim has the
  merged mapping \<open>{7: a, 8: b}\<close>, which is what updating the loaded dictionary with the
  fetched one gives (last line). The session ends ready with \<open>{8: b}\<close> in the analyzer and in
  the pickle it saves: the squad of member 7 is lost.
\<close>

theorem gap_fetch_drops_cached_squads:
  "first_session_disk ''fpl_cache/league_1_gw_1.pkl'' =
     Some (Pickle (PDict [(KStr ''manager_squads'', PDict [(KInt 7, squad_of [10])]),
                          (KStr ''league_data'', league_of [7, 8])])) \<and>
   choose_league session_start 1 first_session_disk 1 ''y'' ''y'' Map.empty (league_of [7, 8]) =
     (session_start\<lparr>manager_squads := PDict [(KInt 7, squad_of [10])],
                    league_data := league_of [7, 8], current_league_id := Some 1\<rparr>, True, True) \<and>
   reconcile (fst (choose_league session_start 1 first_session_disk 1 ''y'' ''y'' Map.empty
                     (league_of [7, 8]))) [7, 8] ''y'' =
     Inr \<lparr>skip_fetch = False, plan_ids = [8], missing_defined = True\<rparr> \<and>
   snd (snd (analysis_session session_start 1 first_session_disk 1 ''y'' ''y'' Map.empty
               (league_of [7, 8]) 2 api_up in_order ''y'' (Preset ''conservative''))) = Ready \<and>
   manager_squads (fst (analysis_session session_start 1 first_session_disk 1 ''y'' ''y'' Map.empty
                          (league_of [7, 8]) 2 api_up in_order ''y'' (Preset ''conservative''))) =
     PDict [(KInt 8, squad_of [10, 20])] \<and>
   fst (snd (analysis_session session_start 1 first_session_disk 1 ''y'' ''y'' Map.empty
               (league_of [7, 8]) 2 api_up in_order ''y'' (Preset ''conservative'')))
     ''fpl_cache/league_1_gw_1.pkl'' =
     Some (Pickle (PDict [(KStr ''manager_squads'', PDict [(KInt 8, squad_of [10, 20])]),
                          (KStr ''league_data'', league_of [7, 8])])) \<and>
   py_update (manager_squads (fst (choose_league session_start 1 first_session_disk 1 ''y'' ''y''
                                     Map.empty (league_of [7, 8]))))
     [(KInt 8, squad_of [10, 20])] =
     Inr (PDict [(KInt 7, squad_of [10]), (KInt 8, squad_of [10, 20])])"
  by code_simp

section \<open>Files of the cache\<close>

lemma cache_stem_same:
  "bootstrap_data st' = bootstrap_data st \<Longrightarrow>
   cache_stem st' league_id gameweek = cache_stem st league_id gameweek"
  by (cases gameweek) (simp_all add: cache_stem_def default_gameweek_def)

lemma cache_names_same:
  assumes "bootstrap_data st' = bootstrap_data st"
  shows "get_cache_filename st' league_id gameweek = get_cache_filename st league_id gameweek"
    and "get_cache_info_filename st' league_id gameweek = get_cache_info_filename st league_id gameweek"
  by (simp_all add: get_cache_filename_def get_cache_info_filename_def cache_stem_same[OF assms])

lemma cache_names_differ:
  "get_cache_filename st league_id gameweek \<noteq> get_cache_info_filename st league_id gameweek"
  by (simp add: get_cache_filename_def get_cache_info_filename_def)

lemma league_size_snapshot:
  "league_size PNone = Inr 0"
  "league_size (PDict [(KStr ''standings'', PDict [(KStr ''results'', PList members)])]) =
     Inr (length members)"
  by (simp_all add: league_size_def)

lemma cache_info_fields:
  "py_getitem (cache_info league_id gameweek squad_count now league_total) ''cached_at'' =
     Inr (PInt now)"
  "py_getitem (cache_info league_id gameweek squad_count now league_total)
     ''total_managers_in_league'' = Inr (PInt (int league_total))"
  by (simp_all add: cache_info_def)

lemma save_states_ok:
  assumes "manager_squads st = PDict squads" and "league_size (league_data st) = Inr n"
  shows "save_states st now fs league_id gameweek =
           ([fs(get_cache_filename st league_id gameweek \<mapsto> Truncated),
             fs(get_cache_filename st league_id gameweek \<mapsto> Pickle (cache_data st)),
             fs(get_cache_filename st league_id gameweek \<mapsto> Pickle (cache_data st),
                get_cache_info_filename st league_id gameweek \<mapsto> Truncated),
             fs(get_cache_filename st league_id gameweek \<mapsto> Pickle (cache_data st),
                get_cache_info_filename st league_id gameweek \<mapsto>
                  Json (cache_info league_id gameweek (length squads) now n))],
            True)"
  using assms by (simp add: save_states_def Let_def)

lemma load_new_format:
  assumes "fs (get_cache_filename st league_id gameweek) =
             Some (Pickle (PDict [(KStr ''manager_squads'', PDict squads), (KStr ''league_data'', ld)]))"
      and "fs (get_cache_info_filename st league_id gameweek) = Some (Json info)"
      and "py_getitem info ''cached_at'' = Inr (PInt t)"
      and "py_getitem info ''total_managers_in_league'' = Inr v"
      and "skip_prompt \<or> now - t \<le> one_hour \<or> use_cache \<noteq> ''n''"
  shows "load_manager_squads_cache st now fs league_id gameweek skip_prompt use_cache =
           (st\<lparr>manager_squads := PDict squads, league_data := ld\<rparr>, True)"
  using assms by (auto simp: load_manager_squads_cache_def)

lemma load_without_total:
  assumes "fs (get_cache_filename st league_id gameweek) = Some (Pickle (PDict squads))"
      and "fs (get_cache_info_filename st league_id gameweek) = Some (Json info)"
      and "KStr ''manager_squads'' \<notin> fst ` set squads"
      and "py_getitem info ''cached_at'' = Inr (PInt t)"
      and "py_getitem info ''total_managers_in_league'' = Inl e"
      and "skip_prompt \<or> now - t \<le> one_hour \<or> use_cache \<noteq> ''n''"
  shows "load_manager_squads_cache st now fs league_id gameweek skip_prompt use_cache =
           (st\<lparr>manager_squads := PDict squads, league_data := PNone\<rparr>, False)"
proof -
  from assms(3) have "map_of squads (KStr ''manager_squads'') = None"
    by (simp add: map_of_eq_None_iff)
  with assms(1,2,4,5,6) show ?thesis
    by (auto simp: load_manager_squads_cache_def)
qed

lemma load_without_cached_at:
  assumes "py_getitem info ''cached_at'' = Inl e"
      and "fs (get_cache_info_filename st league_id gameweek) = Some (Json info)"
  shows "load_manager_squads_cache st now fs league_id gameweek skip_prompt use_cache = (st, False)"
  using assms by (auto simp: load_manager_squads_cache_def split: option.splits)

section \<open>Saving and loading the cache\<close>

text \<open>
  C4. For every league id, gameweek (given, or left to the bootstrap data), dictionary of
  squads and league snapshot (none, or the standings with their list of members), whatever
  the files were before and whenever the two calls are made, the save returns true and a
  load of the files it leaves, with the prompt skipped, by an analyzer with the same
  bootstrap data, returns true with exactly the saved squads and the saved league data.
\<close>

theorem save_load_round_trip:
  assumes "manager_squads st = PDict squads"
      and "league_data st = PNone \<or>
           league_data st = PDict [(KStr ''standings'', PDict [(KStr ''results'', PList members)])]"
      and "bootstrap_data st' = bootstrap_data st"
  shows "snd (save_manager_squads_cache st now fs league_id gameweek) \<and>
         load_manager_squads_cache st' now'
           (fst (save_manager_squads_cache st now fs league_id gameweek))
           league_id gameweek True use_cache =
           (st'\<lparr>manager_squads := PDict squads, league_data := league_data st\<rparr>, True)"
proof -
  from assms(2) obtain n where n: "league_size (league_data st) = Inr n"
    using league_size_snapshot by auto
  let ?c = "get_cache_filename st league_id gameweek"
  let ?i = "get_cache_info_filename st league_id gameweek"
  let ?info = "cache_info league_id gameweek (length squads) now n"
  let ?fs = "fs(?c \<mapsto> Pickle (cache_data st), ?i \<mapsto> Json ?info)"
  have saved: "save_manager_squads_cache st now fs league_id gameweek = (?fs, True)"
    by (simp add: save_manager_squads_cache_def save_states_ok[OF assms(1) n])
  note same = cache_names_same[OF assms(3)]
  have c: "?fs (get_cache_filename st' league_id gameweek) =
             Some (Pickle (PDict [(KStr ''manager_squads'', PDict squads),
                                  (KStr ''league_data'', league_data st)]))"
    using cache_names_differ[of st league_id gameweek]
    by (simp add: same cache_data_def assms(1))
  have i: "?fs (get_cache_info_filename st' league_id gameweek) = Some (Json ?info)"
    by (simp add: same)
  have "load_manager_squads_cache st' now' ?fs league_id gameweek True use_cache =
           (st'\<lparr>manager_squads := PDict squads, league_data := league_data st\<rparr>, True)"
    by (rule load_new_format[OF c i cache_info_fields]) simp
  with saved show ?thesis by simp
qed

theorem save_load_round_trip_witness:
  "manager_squads two_squads = PDict [(KInt 7, squad_of [10]), (KInt 8, squad_of [10, 20])] \<and>
   league_data two_squads = league_of [7, 8] \<and>
   bootstrap_data new_analyzer = bootstrap_data two_squads \<and>
   snd (save_manager_squads_cache two_squads 0 Map.empty 1 (Some 1)) \<and>
   load_manager_squads_cache new_analyzer (2 * one_hour)
     (fst (save_manager_squads_cache two_squads 0 Map.empty 1 (Some 1))) 1 (Some 1) True ''n'' =
     (new_analyzer\<lparr>manager_squads := PDict [(KInt 7, squad_of [10]), (KInt 8, squad_of [10, 20])],
                   league_data := league_of [7, 8]\<rparr>, True)"
proof -
  have h1: "manager_squads two_squads = PDict [(KInt 7, squad_of [10]), (KInt 8, squad_of [10, 20])]"
    by (simp add: two_squads_def)
  have ld: "league_data two_squads = league_of [7, 8]"
    by (simp add: two_squads_def)
  have h2: "league_data two_squads = PNone \<or>
        league_data two_squads = PDict [(KStr ''standings'', PDict [(KStr ''results'',
           PList (map (\<lambda>m. PDict [(KStr ''entry'', PInt m)]) [7, 8]))])]"
    by (simp add: two_squads_def league_of_def)
  have h3: "bootstrap_data new_analyzer = bootstrap_data two_squads"
    by (simp add: two_squads_def)
  note t = save_load_round_trip[where now = 0 and fs = Map.empty and league_id = 1
      and gameweek = "Some 1" and now' = "2 * one_hour" and use_cache = "''n''", OF h1 h2 h3]
  from t[THEN conjunct2] have l: "load_manager_squads_cache new_analyzer (2 * one_hour)
     (fst (save_manager_squads_cache two_squads 0 Map.empty 1 (Some 1))) 1 (Some 1) True ''n'' =
     (new_analyzer\<lparr>manager_squads := PDict [(KInt 7, squad_of [10]), (KInt 8, squad_of [10, 20])],
                   league_data := league_of [7, 8]\<rparr>, True)"
    by (simp only: ld)
  from h1 ld h3 t[THEN conjunct1] l show ?thesis by (intro conjI)
qed

text \<open>
  C9. A record in the legacy format is a pickle of the squads dictionary itself, keyed by
  manager ids, so without the key \<^verbatim>\<open>manager_squads\<close>, beside its metadata file. The metadata
  of a cache record holds its time of creation and the size of the league (they are what the
  load reads of it, \<open>load_without_cached_at\<close> and \<open>load_without_total\<close> show the load
  returning false without them). Loading such a record (with the prompt skipped, or the
  record less than an hour old, or the operator not answering \<open>n\<close>) returns true, with the
  whole dictionary as the squads and no league data.
\<close>

theorem legacy_record_loads:
  assumes "fs (get_cache_filename st league_id gameweek) = Some (Pickle (PDict squads))"
      and "fs (get_cache_info_filename st league_id gameweek) = Some (Json info)"
      and "KStr ''manager_squads'' \<notin> fst ` set squads"
      and "py_getitem info ''cached_at'' = Inr (PInt t)"
      and "py_getitem info ''total_managers_in_league'' = Inr league_total"
      and "skip_prompt \<or> now - t \<le> one_hour \<or> use_cache \<noteq> ''n''"
  shows "load_manager_squads_cache st now fs league_id gameweek skip_prompt use_cache =
           (st\<lparr>manager_squads := PDict squads, league_data := PNone\<rparr>, True)"
proof -
  from assms(3) have "map_of squads (KStr ''manager_squads'') = None"
    by (simp add: map_of_eq_None_iff)
  with assms(1,2,4,5,6) show ?thesis
    by (auto simp: load_manager_squads_cache_def)
qed

theorem legacy_record_loads_witness:
  "legacy_disk (get_cache_filename new_analyzer 1 (Some 1)) =
     Some (Pickle (PDict [(KInt 7, squad_of [10])])) \<and>
   legacy_disk (get_cache_info_filename new_analyzer 1 (Some 1)) =
     Some (Json (cache_info 1 (Some 1) 1 0 2)) \<and>
   KStr ''manager_squads'' \<notin> fst ` set [(KInt 7, squad_of [10])] \<and>
   py_getitem (cache_info 1 (Some 1) 1 0 2) ''cached_at'' = Inr (PInt 0) \<and>
   py_getitem (cache_info 1 (Some 1) 1 0 2) ''total_managers_in_league'' = Inr (PInt 2) \<and>
   load_manager_squads_cache new_analyzer (2 * one_hour) legacy_disk 1 (Some 1) True ''y'' =
     (new_analyzer\<lparr>manager_squads := PDict [(KInt 7, squad_of [10])], league_data := PNone\<rparr>, True)"
proof -
  have h1: "legacy_disk (get_cache_filename new_analyzer 1 (Some 1)) =
     Some (Pickle (PDict [(KInt 7, squad_of [10])]))"
    by code_simp
  have h2: "legacy_disk (get_cache_info_filename new_analyzer 1 (Some 1)) =
     Some (Json (cache_info 1 (Some 1) 1 0 2))"
    by code_simp
  have h3: "KStr ''manager_squads'' \<notin> fst ` set [(KInt 7, squad_of [10])]"
    by simp
  have h4: "py_getitem (cache_info 1 (Some 1) 1 0 2) ''cached_at'' = Inr (PInt 0)"
    by (simp add: cache_info_def)
  have h5: "py_getitem (cache_info 1 (Some 1) 1 0 2) ''total_managers_in_league'' = Inr (PInt 2)"
    by (simp add: cache_info_def)
  have h6: "True \<or> 2 * one_hour - 0 \<le> one_hour \<or> ''y'' \<noteq> ''n''"
    by simp
  from legacy_record_loads[OF h1 h2 h3 h4 h5 h6] h1 h2 h3 h4 h5 show ?thesis by (intro conjI)
qed

section \<open>The save is not atomic\<close>

text \<open>
  C8, as stated, at a save of two squads (at time 5) over the record of one squad saved at
  time 0, for league 1 and gameweek 1. After the second file operation the pickle holds the
  two new squads while the metadata is still the old one, with a count of 1: the record a
  reader finds then is neither the one before the save nor the one after it. After the first
  operation the pickle is empty and a load fails, though it succeeds before and after the
  save.
\<close>

theorem save_intermediate_counterexample:
  "(fst (save_states two_squads 5 disk_7 1 (Some 1)) ! 1) ''fpl_cache/league_1_gw_1.pkl'' =
     Some (Pickle (cache_data two_squads)) \<and>
   (fst (save_states two_squads 5 disk_7 1 (Some 1)) ! 1) ''fpl_cache/league_1_gw_1_info.json'' =
     Some (Json (cache_info 1 (Some 1) 1 0 0)) \<and>
   (fst (save_states two_squads 5 disk_7 1 (Some 1)) ! 1) ''fpl_cache/league_1_gw_1.pkl'' \<noteq>
     disk_7 ''fpl_cache/league_1_gw_1.pkl'' \<and>
   (fst (save_states two_squads 5 disk_7 1 (Some 1)) ! 1) ''fpl_cache/league_1_gw_1_info.json'' \<noteq>
     fst (save_manager_squads_cache two_squads 5 disk_7 1 (Some 1)) ''fpl_cache/league_1_gw_1_info.json'' \<and>
   load_manager_squads_cache new_analyzer 5 (fst (save_states two_squads 5 disk_7 1 (Some 1)) ! 0)
     1 (Some 1) True ''y'' = (new_analyzer, False) \<and>
   snd (load_manager_squads_cache new_analyzer 5 disk_7 1 (Some 1) True ''y'') \<and>
   snd (load_manager_squads_cache new_analyzer 5
          (fst (save_manager_squads_cache two_squads 5 disk_7 1 (Some 1))) 1 (Some 1) True ''y'')"
  by code_simp

text \<open>
  C8, amended. A save whose metadata can be computed rewrites the two files in place, the
  pickle first and the metadata after it, in four steps: pickle emptied, pickle written,
  metadata emptied, metadata written. It returns true and leaves the complete new record,
  and no other file differs from what it was at any step. So a reader before the save finds
  the old record and a reader after it the new one; a reader in between can find an empty
  file, or the new pickle with the old metadata.
\<close>

theorem save_in_place:
  assumes "manager_squads st = PDict squads" and "league_size (league_data st) = Inr n"
  shows "fst (save_states st now fs league_id gameweek) =
           [fs(get_cache_filename st league_id gameweek \<mapsto> Truncated),
            fs(get_cache_filename st league_id gameweek \<mapsto> Pickle (cache_data st)),
            fs(get_cache_filename st league_id gameweek \<mapsto> Pickle (cache_data st),
               get_cache_info_filename st league_id gameweek \<mapsto> Truncated),
            fs(get_cache_filename st league_id gameweek \<mapsto> Pickle (cache_data st),
               get_cache_info_filename st league_id gameweek \<mapsto>
                 Json (cache_info league_id gameweek (length squads) now n))] \<and>
         save_manager_squads_cache st now fs league_id gameweek =
           (fs(get_cache_filename st league_id gameweek \<mapsto> Pickle (cache_data st),
               get_cache_info_filename st league_id gameweek \<mapsto>
                 Json (cache_info league_id gameweek (length squads) now n)), True) \<and>
         (\<forall>path. path \<noteq> get_cache_filename st league_id gameweek \<and>
                 path \<noteq> get_cache_info_filename st league_id gameweek \<longrightarrow>
                 list_all (\<lambda>s. s path = fs path) (fst (save_states st now fs league_id gameweek)))"
  by (simp add: save_manager_squads_cache_def save_states_ok[OF assms])

theorem save_in_place_witness:
  "manager_squads two_squads = PDict [(KInt 7, squad_of [10]), (KInt 8, squad_of [10, 20])] \<and>
   league_size (league_data two_squads) = Inr 2 \<and>
   save_manager_squads_cache two_squads 5 disk_7 1 (Some 1) =
     (disk_7(get_cache_filename two_squads 1 (Some 1) \<mapsto> Pickle (cache_data two_squads),
             get_cache_info_filename two_squads 1 (Some 1) \<mapsto>
               Json (cache_info 1 (Some 1) (length [(KInt 7, squad_of [10]), (KInt 8, squad_of [10, 20])])
                       5 2)), True) \<and>
   list_all (\<lambda>s. s ''other.txt'' = disk_7 ''other.txt'') (fst (save_states two_squads 5 disk_7 1 (Some 1)))"
proof -
  have h1: "manager_squads two_squads = PDict [(KInt 7, squad_of [10]), (KInt 8, squad_of [10, 20])]"
    by (simp add: two_squads_def)
  have h2: "league_size (league_data two_squads) = Inr 2"
    by (simp add: two_squads_def league_of_def league_size_def)
  note t = save_in_place[where now = 5 and fs = disk_7 and league_id = 1 and gameweek = "Some 1",
      OF h1 h2]
  have p1: "''other.txt'' \<noteq> get_cache_filename two_squads 1 (Some 1)"
    by (simp add: get_cache_filename_def cache_stem_def)
  have p2: "''other.txt'' \<noteq> get_cache_info_filename two_squads 1 (Some 1)"
    by (simp add: get_cache_info_filename_def cache_stem_def)
  from t[THEN conjunct2, THEN conjunct2] p1 p2
  have o: "list_all (\<lambda>s. s ''other.txt'' = disk_7 ''other.txt'') (fst (save_states two_squads 5 disk_7 1 (Some 1)))"
    by blast
  from h1 h2 t[THEN conjunct2, THEN conjunct1] o show ?thesis by (intro conjI)
qed

section \<open>The scan of the squads\<close>

lemma py_getitem_exn: "py_getitem v name = Inl e \<Longrightarrow> e = KeyError \<or> e = TypeError"
  by (cases v) (auto split: option.splits)

lemma py_iter_exn: "py_iter v = Inl e \<Longrightarrow> e = TypeError"
  by (cases v) auto

lemma pick_elements_exn: "pick_elements ps = Inl e \<Longrightarrow> e = KeyError \<or> e = TypeError"
  by (induction ps) (auto split: sum.splits dest: py_getitem_exn)

lemma squad_player_ids_exn: "squad_player_ids sq = Inl e \<Longrightarrow> e = KeyError \<or> e = TypeError"
  by (auto simp: squad_player_ids_def split: sum.splits
      dest: py_getitem_exn py_iter_exn pick_elements_exn)

lemma contains_python: "contains python_eq ids pid = Inr (list_ex (\<lambda>x. py_eq_int x pid) ids)"
  by (induction ids) (simp_all add: python_eq_def)

lemma has_all_python:
  "has_all python_eq ids pids = Inr (list_all (\<lambda>pid. list_ex (\<lambda>x. py_eq_int x pid) ids) pids)"
  by (induction pids) (simp_all add: contains_python)

lemma contains_numpy:
  "list_all numeric ids \<Longrightarrow>
   contains (numpy_eq other) ids pid = Inr (list_ex (\<lambda>x. py_eq_int x pid) ids)"
  by (induction ids) (simp_all add: numpy_eq_def)

lemma has_all_numpy:
  "list_all numeric ids \<Longrightarrow>
   has_all (numpy_eq other) ids pids =
     Inr (list_all (\<lambda>pid. list_ex (\<lambda>x. py_eq_int x pid) ids) pids)"
  by (induction pids) (simp_all add: contains_numpy)

lemma scan_squads_filter:
  assumes "\<And>entry ids. entry \<in> set squads \<Longrightarrow> squad_player_ids (snd entry) = Inr ids \<Longrightarrow>
             has_all eq ids pids = Inr (list_all (\<lambda>pid. list_ex (\<lambda>x. py_eq_int x pid) ids) pids)"
  shows "scan_squads eq squads pids = Inr (map fst (filter (matches pids) squads))"
  using assms
proof (induction squads)
  case Nil
  then show ?case by simp
next
  case (Cons entry squads)
  obtain m sq where entry: "entry = (m, sq)" by (cases entry)
  have IH: "scan_squads eq squads pids = Inr (map fst (filter (matches pids) squads))"
  proof (rule Cons.IH)
    fix other_entry ids
    assume "other_entry \<in> set squads" and "squad_player_ids (snd other_entry) = Inr ids"
    then show "has_all eq ids pids =
        Inr (list_all (\<lambda>pid. list_ex (\<lambda>x. py_eq_int x pid) ids) pids)"
      using Cons.prems[of other_entry ids] by simp
  qed
  show ?case
  proof (cases "squad_player_ids sq")
    case (Inl e)
    then have no: "\<not> matches pids (m, sq)"
      by (simp add: matches_def)
    from squad_player_ids_exn[OF Inl] Inl no show ?thesis
      by (auto simp: entry IH)
  next
    case (Inr ids)
    have "has_all eq ids pids = Inr (list_all (\<lambda>pid. list_ex (\<lambda>x. py_eq_int x pid) ids) pids)"
      using Cons.prems[of entry ids] Inr by (simp add: entry)
    moreover from Inr have "matches pids (m, sq) \<longleftrightarrow>
        list_all (\<lambda>pid. list_ex (\<lambda>x. py_eq_int x pid) ids) pids"
      by (simp add: matches_def)
    ultimately show ?thesis
      using Inr by (simp add: entry IH)
  qed
qed

lemma scan_squads_python:
  "scan_squads python_eq squads pids = Inr (map fst (filter (matches pids) squads))"
  by (rule scan_squads_filter) (rule has_all_python)

lemma scan_squads_numpy:
  assumes "\<forall>entry\<in>set squads. numeric_ids entry"
  shows "scan_squads (numpy_eq other) squads pids = Inr (map fst (filter (matches pids) squads))"
proof (rule scan_squads_filter)
  fix entry ids
  assume "entry \<in> set squads" and ids: "squad_player_ids (snd entry) = Inr ids"
  with assms have "list_all numeric ids"
    by (auto simp: numeric_ids_def)
  then show "has_all (numpy_eq other) ids pids =
      Inr (list_all (\<lambda>pid. list_ex (\<lambda>x. py_eq_int x pid) ids) pids)"
    by (rule has_all_numpy)
qed

lemma holds_ints:
  "list_all (\<lambda>pid. list_ex (\<lambda>x. py_eq_int x pid) (map PInt items)) pids \<longleftrightarrow> set pids \<subseteq> set items"
  by (auto simp: list_all_iff list_ex_iff)

lemma found_iff:
  assumes "distinct (map fst squads)" and "(m, sq) \<in> set squads"
  shows "m \<in> set (map fst (filter (matches pids) squads)) \<longleftrightarrow> matches pids (m, sq)"
proof
  assume "m \<in> set (map fst (filter (matches pids) squads))"
  then obtain sq' where in': "(m, sq') \<in> set squads" and ok: "matches pids (m, sq')"
    by auto
  from assms in' have "sq' = sq"
    by (meson eq_key_imp_eq_value)
  with ok show "matches pids (m, sq)" by simp
next
  assume "matches pids (m, sq)"
  with assms(2) show "m \<in> set (map fst (filter (matches pids) squads))"
    by force
qed

section \<open>The combination query on the squads\<close>

text \<open>The loop of the web route never raises, whatever the squads hold.\<close>

lemma web_scan_total:
  "manager_squads st = PDict squads \<Longrightarrow>
   analyze_combination_matches st pids = Inr (map fst (filter (matches pids) squads))"
  by (simp add: analyze_combination_matches_def scan_squads_python)

text \<open>
  C6, as stated. First, at two members of whom the first holds player 10 and the second has a
  payload without picks, asked for player 10: the claim has the second member skipped rather
  than counted as a non-match; the code reports 2 managers checked and 1 match, 50 per cent,
  which is exactly its answer when the second member has a well-formed squad without player
  10, while leaving the second member out gives 1 of 1, 100 per cent. Second, when the second
  member has a pick whose element is the list \<open>[10, 20]\<close>, numpy's comparison of the wanted id
  with that list raises a ValueError, which is not caught: the query of
  \<^verbatim>\<open>find_player_combinations\<close> ends there instead of scanning every entry.
\<close>

theorem malformed_counted_counterexample:
  "find_player_combinations with_malformed numpy_on_lists lookup_player [''Salah''] =
     Inr ([KInt 1],
          Some \<lparr>player_names = [''Salah''], player_ids = [10], matching_managers = [KInt 1],
                total_managers_checked = 2, combination_count = 1\<rparr>) \<and>
   find_player_combinations with_non_match numpy_on_lists lookup_player [''Salah''] =
     find_player_combinations with_malformed numpy_on_lists lookup_player [''Salah''] \<and>
   find_player_combinations without_second numpy_on_lists lookup_player [''Salah''] =
     Inr ([KInt 1],
          Some \<lparr>player_names = [''Salah''], player_ids = [10], matching_managers = [KInt 1],
                total_managers_checked = 1, combination_count = 1\<rparr>) \<and>
   percentage \<lparr>player_names = [''Salah''], player_ids = [10], matching_managers = [KInt 1],
               total_managers_checked = 2, combination_count = 1\<rparr> = 50 \<and>
   percentage \<lparr>player_names = [''Salah''], player_ids = [10], matching_managers = [KInt 1],
               total_managers_checked = 1, combination_count = 1\<rparr> = 100 \<and>
   find_player_combinations with_list_element numpy_on_lists lookup_player [''Salah''] =
     Inl ValueError"
  by code_simp

text \<open>
  C6, amended. Take squads in which every element that the picks yield is a number, and names
  that all resolve. The query returns without an exception, after going through every entry,
  and the loop of the web route finds the same managers. A member whose payload yields the
  ids \<open>items\<close> is reported iff every wanted id is among them (the order and the repetitions
  of \<open>items\<close> play no part); a member whose payload raises (no picks, a pick without element)
  is never reported and raises nothing, but it is counted in the managers checked, the
  denominator of the percentage. On the three squads of the specification's example the
  members 1 and 3 are reported, 2 of 3, and the percentage \<open>200/3\<close> is 66.67 to two decimals.
\<close>

theorem query_matches_supersets:
  assumes "manager_squads st = PDict squads" and "squads \<noteq> []"
      and "distinct (map fst squads)"
      and "resolve_players lookup names = Some pids"
      and "\<forall>entry\<in>set squads. numeric_ids entry"
  shows "(\<exists>found.
           find_player_combinations st other lookup names =
             Inr (found,
                  Some \<lparr>player_names = names, player_ids = pids, matching_managers = found,
                        total_managers_checked = length squads,
                        combination_count = length found\<rparr>) \<and>
           analyze_combination_matches st pids = Inr found \<and>
           (\<forall>m sq items. (m, sq) \<in> set squads \<and> squad_player_ids sq = Inr (map PInt items) \<longrightarrow>
              (m \<in> set found \<longleftrightarrow> set pids \<subseteq> set items)) \<and>
           (\<forall>m sq e. (m, sq) \<in> set squads \<and> squad_player_ids sq = Inl e \<longrightarrow> m \<notin> set found)) \<and>
         find_player_combinations three_squads other lookup_player [''Salah'', ''Saka'', ''Haaland''] =
           Inr ([KInt 1, KInt 3],
                Some \<lparr>player_names = [''Salah'', ''Saka'', ''Haaland''], player_ids = [10, 20, 30],
                      matching_managers = [KInt 1, KInt 3], total_managers_checked = 3,
                      combination_count = 2\<rparr>) \<and>
         percentage \<lparr>player_names = [''Salah'', ''Saka'', ''Haaland''], player_ids = [10, 20, 30],
                     matching_managers = [KInt 1, KInt 3], total_managers_checked = 3,
                     combination_count = 2\<rparr> = 200 / 3 \<and>
         66665 / 1000 \<le> (200 / 3 :: rat) \<and> (200 / 3 :: rat) < 66675 / 1000"
proof -
  let ?found = "map fst (filter (matches pids) squads)"
  have run: "find_player_combinations st other lookup names =
             Inr (?found,
                  Some \<lparr>player_names = names, player_ids = pids, matching_managers = ?found,
                        total_managers_checked = length squads,
                        combination_count = length ?found\<rparr>)"
    using assms(1,2,4) by (simp add: find_player_combinations_def scan_squads_numpy[OF assms(5)])
  have web: "analyze_combination_matches st pids = Inr ?found"
    using assms(1) by (rule web_scan_total)
  have good: "\<forall>m sq items. (m, sq) \<in> set squads \<and> squad_player_ids sq = Inr (map PInt items) \<longrightarrow>
              (m \<in> set ?found \<longleftrightarrow> set pids \<subseteq> set items)"
  proof (intro allI impI)
    fix m sq items
    assume a: "(m, sq) \<in> set squads \<and> squad_player_ids sq = Inr (map PInt items)"
    then have "m \<in> set ?found \<longleftrightarrow> matches pids (m, sq)"
      using found_iff[OF assms(3)] by blast
    also have "\<dots> \<longleftrightarrow> set pids \<subseteq> set items"
      using a by (simp add: matches_def holds_ints)
    finally show "m \<in> set ?found \<longleftrightarrow> set pids \<subseteq> set items" .
  qed
  have bad: "\<forall>m sq e. (m, sq) \<in> set squads \<and> squad_player_ids sq = Inl e \<longrightarrow> m \<notin> set ?found"
  proof (intro allI impI)
    fix m sq e
    assume a: "(m, sq) \<in> set squads \<and> squad_player_ids sq = Inl e"
    then have "m \<in> set ?found \<longleftrightarrow> matches pids (m, sq)"
      using found_iff[OF assms(3)] by blast
    also have "\<dots> \<longleftrightarrow> False"
      using a by (simp add: matches_def)
    finally show "m \<notin> set ?found" by simp
  qed
  have general: "\<exists>found.
           find_player_combinations st other lookup names =
             Inr (found,
                  Some \<lparr>player_names = names, player_ids = pids, matching_managers = found,
                        total_managers_checked = length squads,
                        combination_count = length found\<rparr>) \<and>
           analyze_combination_matches st pids = Inr found \<and>
           (\<forall>m sq items. (m, sq) \<in> set squads \<and> squad_player_ids sq = Inr (map PInt items) \<longrightarrow>
              (m \<in> set found \<longleftrightarrow> set pids \<subseteq> set items)) \<and>
           (\<forall>m sq e. (m, sq) \<in> set squads \<and> squad_player_ids sq = Inl e \<longrightarrow> m \<notin> set found)"
    using run web good bad by (intro exI[of _ ?found] conjI)
  have ex1: "find_player_combinations three_squads other lookup_player [''Salah'', ''Saka'', ''Haaland''] =
           Inr ([KInt 1, KInt 3],
                Some \<lparr>player_names = [''Salah'', ''Saka'', ''Haaland''], player_ids = [10, 20, 30],
                      matching_managers = [KInt 1, KInt 3], total_managers_checked = 3,
                      combination_count = 2\<rparr>)"
    by (simp add: find_player_combinations_def three_squads_def new_analyzer_def lookup_player_def
        squad_player_ids_def squad_of_def pick_def numpy_eq_def)
  have ex2: "percentage \<lparr>player_names = [''Salah'', ''Saka'', ''Haaland''], player_ids = [10, 20, 30],
                     matching_managers = [KInt 1, KInt 3], total_managers_checked = 3,
                     combination_count = 2\<rparr> = 200 / 3"
    by (simp add: percentage_def)
  have ex3: "66665 / 1000 \<le> (200 / 3 :: rat)" and ex4: "(200 / 3 :: rat) < 66675 / 1000"
    by simp_all
  from general ex1 ex2 ex3 ex4 show ?thesis by (intro conjI)
qed

theorem query_matches_supersets_witness:
  "manager_squads with_malformed = PDict [(KInt 1, squad_of [10]), (KInt 2, PDict [])] \<and>
   distinct (map fst [(KInt 1, squad_of [10]), (KInt 2, PDict [])]) \<and>
   resolve_players lookup_player [''Salah''] = Some [10] \<and>
   squad_player_ids (squad_of [10]) = Inr (map PInt [10]) \<and>
   squad_player_ids (PDict []) = Inl KeyError \<and>
   list_all numeric_ids [(KInt 1, squad_of [10]), (KInt 2, PDict [])] \<and>
   (\<exists>found.
      find_player_combinations with_malformed numpy_on_lists lookup_player [''Salah''] =
        Inr (found,
             Some \<lparr>player_names = [''Salah''], player_ids = [10], matching_managers = found,
                   total_managers_checked = 2, combination_count = length found\<rparr>) \<and>
      analyze_combination_matches with_malformed [10] = Inr found \<and>
      KInt 1 \<in> set found \<and> KInt 2 \<notin> set found)"
proof -
  let ?squads = "[(KInt 1, squad_of [10]), (KInt 2, PDict [])]"
  have h1: "manager_squads with_malformed = PDict ?squads"
    by (simp add: with_malformed_def)
  have h2: "?squads \<noteq> []"
    by simp
  have h3: "distinct (map fst ?squads)"
    by simp
  have h4: "resolve_players lookup_player [''Salah''] = Some [10]"
    by (simp add: lookup_player_def)
  have g: "squad_player_ids (squad_of [10]) = Inr (map PInt [10])"
    by (simp add: squad_player_ids_def squad_of_def pick_def)
  have b: "squad_player_ids (PDict []) = Inl KeyError"
    by (simp add: squad_player_ids_def)
  have n: "list_all numeric_ids ?squads"
    by (simp add: numeric_ids_def g b)
  then have h5: "\<forall>entry\<in>set ?squads. numeric_ids entry"
    by (simp add: list_all_iff)
  from query_matches_supersets[where other = numpy_on_lists, OF h1 h2 h3 h4 h5, THEN conjunct1]
  obtain found where run: "find_player_combinations with_malformed numpy_on_lists lookup_player [''Salah''] =
             Inr (found,
                  Some \<lparr>player_names = [''Salah''], player_ids = [10], matching_managers = found,
                        total_managers_checked = length ?squads,
                        combination_count = length found\<rparr>)"
    and web: "analyze_combination_matches with_malformed [10] = Inr found"
    and good: "\<forall>m sq items. (m, sq) \<in> set ?squads \<and> squad_player_ids sq = Inr (map PInt items) \<longrightarrow>
              (m \<in> set found \<longleftrightarrow> set [10] \<subseteq> set items)"
    and bad: "\<forall>m sq e. (m, sq) \<in> set ?squads \<and> squad_player_ids sq = Inl e \<longrightarrow> m \<notin> set found"
    by (elim exE conjE)
  have in1: "(KInt 1, squad_of [10]) \<in> set ?squads" and in2: "(KInt 2, PDict []) \<in> set ?squads"
    by simp_all
  from good in1 g have "KInt 1 \<in> set found \<longleftrightarrow> set [10::int] \<subseteq> set [10]"
    by blast
  then have f1: "KInt 1 \<in> set found" by simp
  from bad in2 b have f2: "KInt 2 \<notin> set found"
    by blast
  from run have run': "find_player_combinations with_malformed numpy_on_lists lookup_player [''Salah''] =
        Inr (found,
             Some \<lparr>player_names = [''Salah''], player_ids = [10], matching_managers = found,
                   total_managers_checked = 2, combination_count = length found\<rparr>)"
    by simp
  from h1 h3 h4 g b n run' web f1 f2 show ?thesis by (intro conjI exI[of _ found])
qed

end
